theory Spec2Isabelle
  imports
    Complex_Main
    "HOL-Library.AList"
    "HOL-Library.Char_ord"
    "HOL-Library.List_Lexorder"
    "HOL-Library.Product_Lexorder"
begin

section \<open>Records, field values and Python's string helpers\<close>

text \<open>
  The scripts under \<open>demographics/\<close> read rows with \<open>csv.DictReader\<close>. A row is a
  dictionary from column names to values; a value is a string, or Python's \<open>None\<close>
  when the line was shorter than the header. A key that is not a column of the file is
  not in the dictionary at all.
\<close>

datatype pyval = PyNone | PyStr string

type_synonym row = "string \<rightharpoonup> pyval"

datatype error = AttributeError | NameError

text \<open>\<open>row.get(k)\<close>: the value, \<open>None\<close> when the key is missing.\<close>

definition get :: "row \<Rightarrow> string \<Rightarrow> pyval" where
  "get row k = (case row k of None \<Rightarrow> PyNone | Some v \<Rightarrow> v)"

text \<open>\<open>row.get(k, '')\<close>: the default replaces a missing key only, not a \<open>None\<close> value.\<close>

definition get_default :: "row \<Rightarrow> string \<Rightarrow> string \<Rightarrow> pyval" where
  "get_default row k d = (case row k of None \<Rightarrow> PyStr d | Some v \<Rightarrow> v)"

text \<open>
  The characters \<open>str.strip()\<close> removes, among the code points below 256: tab, line
  feed, vertical tab, form feed, carriage return, the four separators 28 to 31, space,
  next-line (133) and the no-break space (160).
\<close>

definition is_space :: "char \<Rightarrow> bool" where
  "is_space c = (of_char c \<in> {9, 10, 11, 12, 13, 28, 29, 30, 31, 32, 133, 160 :: nat})"

definition strip :: "string \<Rightarrow> string" where
  "strip s = rev (dropWhile is_space (rev (dropWhile is_space s)))"

text \<open>\<open>v.strip()\<close> on a field value: \<open>None\<close> has no such method.\<close>

fun py_strip :: "pyval \<Rightarrow> error + string" where
  "py_strip PyNone = Inl AttributeError"
| "py_strip (PyStr s) = Inr (strip s)"

text \<open>
  The guard \<open>not v or not v.strip()\<close> of the aggregators: true for \<open>None\<close>, for the
  empty string and for a string of white space. \<open>strip\<close> is reached for strings only.
\<close>

fun blank :: "pyval \<Rightarrow> bool" where
  "blank PyNone = True"
| "blank (PyStr s) = (s = [] \<or> strip s = [])"

text \<open>The string of a value already known not to be \<open>None\<close>.\<close>

fun the_str :: "pyval \<Rightarrow> string" where
  "the_str (PyStr s) = s"
| "the_str PyNone = []"

section \<open>Grouping aggregators\<close>

text \<open>
  A Python dictionary keeps its keys in insertion order; it is modelled by an association
  list with distinct keys, a new key being appended at the end (\<open>AList.update\<close>).
  \<open>add_patient\<close> is the pair of statements
  \<^verbatim>\<open>if key not in d: d[key] = set()\<close> and \<^verbatim>\<open>d[key].add(patient)\<close>.
\<close>

definition add_patient ::
  "string \<Rightarrow> string \<Rightarrow> (string \<times> string set) list \<Rightarrow> (string \<times> string set) list" where
  "add_patient key patient d =
     (case map_of d key of
        None \<Rightarrow> AList.update key {patient} d
      | Some patients \<Rightarrow> AList.update key (insert patient patients) d)"

text \<open>
  The loop of \<open>process_client_by_location\<close> (\<open>col = ''Location''\<close>) and of
  \<open>process_client_by_payor\<close> (\<open>col = ''Payor''\<close>); the two functions differ in the
  name of the column only.
\<close>

fun group_loop :: "string \<Rightarrow> row list \<Rightarrow> (string \<times> string set) list \<Rightarrow> (string \<times> string set) list" where
  "group_loop col [] d = d"
| "group_loop col (row # rest) d =
     (let location = get row col; patient = get row ''Patient'' in
      if blank location \<or> blank patient then group_loop col rest d
      else group_loop col rest (add_patient (strip (the_str location)) (strip (the_str patient)) d))"

definition process_client_by :: "string \<Rightarrow> row list \<Rightarrow> (string \<times> int) list" where
  "process_client_by col data =
     map (\<lambda>(location, patients). (location, int (card patients))) (group_loop col data [])"

definition process_client_by_location :: "row list \<Rightarrow> (string \<times> int) list" where
  "process_client_by_location data = process_client_by ''Location'' data"

definition process_client_by_payor :: "row list \<Rightarrow> (string \<times> int) list" where
  "process_client_by_payor data = process_client_by ''Payor'' data"

text \<open>
  \<open>process_client_by_location_and_payer\<close>: a dictionary of dictionaries of sets. The
  guard \<open>not all([location, payor, patient]) or not all([...strip()...])\<close> skips a row
  when one of the three is \<open>None\<close> or empty, and otherwise when one is blank once
  stripped.
\<close>

definition add_patient2 ::
  "string \<Rightarrow> string \<Rightarrow> string \<Rightarrow> (string \<times> (string \<times> string set) list) list
     \<Rightarrow> (string \<times> (string \<times> string set) list) list" where
  "add_patient2 location payor patient d =
     (case map_of d location of
        None \<Rightarrow> AList.update location (add_patient payor patient []) d
      | Some by_payor \<Rightarrow> AList.update location (add_patient payor patient by_payor) d)"

fun location_payer_loop ::
  "row list \<Rightarrow> (string \<times> (string \<times> string set) list) list \<Rightarrow> (string \<times> (string \<times> string set) list) list" where
  "location_payer_loop [] d = d"
| "location_payer_loop (row # rest) d =
     (let location = get row ''Location''; payor = get row ''Payor''; patient = get row ''Patient'' in
      if blank location \<or> blank payor \<or> blank patient then location_payer_loop rest d
      else location_payer_loop rest
             (add_patient2 (strip (the_str location)) (strip (the_str payor)) (strip (the_str patient)) d))"

definition process_client_by_location_and_payer ::
  "row list \<Rightarrow> (string \<times> (string \<times> string set) list) list" where
  "process_client_by_location_and_payer data = location_payer_loop data []"

text \<open>
  What the counts are compared with: the trimmed \<open>Patient\<close> values of the rows that have
  every required field and whose trimmed dimension values are the given key.
\<close>

definition usable :: "string list \<Rightarrow> row \<Rightarrow> bool" where
  "usable cols row = (\<not> blank (get row ''Patient'') \<and> list_all (\<lambda>col. \<not> blank (get row col)) cols)"

definition key_of :: "string list \<Rightarrow> row \<Rightarrow> string list" where
  "key_of cols row = map (\<lambda>col. strip (the_str (get row col))) cols"

definition entity :: "row \<Rightarrow> string" where
  "entity row = strip (the_str (get row ''Patient''))"

definition observed :: "string list \<Rightarrow> row list \<Rightarrow> string list \<Rightarrow> string set" where
  "observed cols data key = entity ` set (filter (\<lambda>row. usable cols row \<and> key_of cols row = key) data)"

text \<open>The set stored under a key of a dictionary of sets, empty when the key is new.\<close>

definition sets_of :: "(string \<times> string set) list \<Rightarrow> string \<Rightarrow> string set" where
  "sets_of d key = (case map_of d key of None \<Rightarrow> {} | Some patients \<Rightarrow> patients)"

text \<open>\<open>d[location][payor]\<close> where both keys exist.\<close>

definition cell_set ::
  "(string \<times> (string \<times> string set) list) list \<Rightarrow> string \<Rightarrow> string \<Rightarrow> string set option" where
  "cell_set d location payor = Option.bind (map_of d location) (\<lambda>by_payor. map_of by_payor payor)"

section \<open>Formatting\<close>

text \<open>
  \<open>str(n)\<close> in decimal, the format specifications \<open><w\<close> and \<open>>w\<close> (pad with
  spaces up to the width, never cut), \<open>sep.join(xs)\<close>, and the tests and case mappings
  of ASCII letters.
\<close>

definition digit :: "nat \<Rightarrow> char" where
  "digit n = ''0123456789'' ! n"

fun show_nat :: "nat \<Rightarrow> string" where
  "show_nat n = (if n < 10 then [digit n] else show_nat (n div 10) @ [digit (n mod 10)])"

declare show_nat.simps [simp del]

definition show_int :: "int \<Rightarrow> string" where
  "show_int i = (if i < 0 then CHR ''-'' # show_nat (nat (- i)) else show_nat (nat i))"

definition ljust :: "nat \<Rightarrow> string \<Rightarrow> string" where
  "ljust w s = s @ replicate (w - length s) (CHR '' '')"

definition rjust :: "nat \<Rightarrow> string \<Rightarrow> string" where
  "rjust w s = replicate (w - length s) (CHR '' '') @ s"

fun join :: "string \<Rightarrow> string list \<Rightarrow> string" where
  "join sep [] = []"
| "join sep [x] = x"
| "join sep (x # y # ys) = x @ sep @ join sep (y # ys)"

definition newline :: char where
  "newline = CHR 0x0A"

definition tab :: char where
  "tab = CHR 0x09"

definition upper_char :: "char \<Rightarrow> char" where
  "upper_char c =
     (case map_of (zip ''abcdefghijklmnopqrstuvwxyz'' ''ABCDEFGHIJKLMNOPQRSTUVWXYZ'') c of
        None \<Rightarrow> c | Some u \<Rightarrow> u)"

definition lower_char :: "char \<Rightarrow> char" where
  "lower_char c =
     (case map_of (zip ''ABCDEFGHIJKLMNOPQRSTUVWXYZ'' ''abcdefghijklmnopqrstuvwxyz'') c of
        None \<Rightarrow> c | Some l \<Rightarrow> l)"

definition upper :: "string \<Rightarrow> string" where
  "upper s = map upper_char s"

definition lower :: "string \<Rightarrow> string" where
  "lower s = map lower_char s"

definition is_alpha :: "char \<Rightarrow> bool" where
  "is_alpha c = (c \<in> set ''abcdefghijklmnopqrstuvwxyzABCDEFGHIJKLMNOPQRSTUVWXYZ'')"

text \<open>\<open>s.title()\<close>: a letter after a letter is lowered, any other letter is raised.\<close>

fun title_from :: "bool \<Rightarrow> string \<Rightarrow> string" where
  "title_from after_letter [] = []"
| "title_from after_letter (c # cs) =
     (if is_alpha c then (if after_letter then lower_char c else upper_char c) # title_from True cs
      else c # title_from False cs)"

definition title :: "string \<Rightarrow> string" where
  "title s = title_from False s"

text \<open>\<open>sub in s\<close> on strings.\<close>

fun starts_with :: "string \<Rightarrow> string \<Rightarrow> bool" where
  "starts_with [] s = True"
| "starts_with (p # ps) [] = False"
| "starts_with (p # ps) (c # cs) = (p = c \<and> starts_with ps cs)"

fun contains :: "string \<Rightarrow> string \<Rightarrow> bool" where
  "contains sub [] = (sub = [])"
| "contains sub (c # cs) = (starts_with sub (c # cs) \<or> contains sub cs)"

text \<open>
  Python's \<open>/\<close> on integers gives a float. The percentages are modelled by exact
  rationals; \<open>fmt_1f\<close> is the format \<open>.1f\<close> of a non-negative value: one decimal,
  rounded to nearest, a tie going to the even digit.
\<close>

definition round_half_even :: "rat \<Rightarrow> int" where
  "round_half_even x =
     (let f = \<lfloor>x\<rfloor>; r = x - of_int f in
      if r < 1 / 2 then f else if 1 / 2 < r then f + 1 else if even f then f else f + 1)"

definition fmt_1f :: "rat \<Rightarrow> string" where
  "fmt_1f x =
     (let k = round_half_even (x * 10) in show_int (k div 10) @ ''.'' @ show_int (k mod 10))"

text \<open>A cell of a row handed to \<open>csv.writer\<close>: a string or an integer.\<close>

datatype cell = CStr string | CInt int

section \<open>One-dimension report (clientByLocation.py, clientByPayerType.py)\<close>

text \<open>Lines 84 to 90 of \<open>generate_report\<close>: the order of the listing.\<close>

definition sort_items :: "(string \<times> int) list \<Rightarrow> string \<Rightarrow> (string \<times> int) list" where
  "sort_items location_count sort_by =
     (if sort_by = ''count'' then sort_key (\<lambda>x. (- snd x, fst x)) location_count
      else sort_key (\<lambda>x. x) location_count)"

definition count_line :: "string \<Rightarrow> int \<Rightarrow> string" where
  "count_line location count = ljust 30 location @ '' '' @ rjust 15 (show_int count)"

text \<open>
  What \<open>generate_report\<close> produces: the early return on an empty dictionary, or the
  lines of the returned string (joined by line feeds), the lines written to the text file
  and the rows written to the CSV file. \<open>now\<close> is the formatted clock reading.
\<close>

record outputs =
  console :: "string list"
  txt_file :: "string list"
  csv_file :: "cell list list"

datatype report_result = NoData string | Written outputs

definition generate_report_with ::
  "string \<Rightarrow> string \<Rightarrow> string \<Rightarrow> (string \<times> int) list \<Rightarrow> string \<Rightarrow> report_result" where
  "generate_report_with heading column now location_count sort_by =
     (if location_count = [] then NoData ''No client data found.''
      else
        let sorted_items = sort_items location_count sort_by;
            lines = map (\<lambda>(location, count). count_line location count) sorted_items;
            total_unique_patients = sum_list (map snd sorted_items);
            total_line = ljust 30 ''TOTAL'' @ '' '' @ rjust 15 (show_int total_unique_patients);
            columns = ljust 30 column @ '' '' @ rjust 15 ''Unique Patients''
        in Written
             \<lparr>console =
                [newline # replicate 50 (CHR ''=''), heading, replicate 50 (CHR ''=''), columns,
                 replicate 50 (CHR ''-'')]
                @ lines @ [replicate 50 (CHR ''-''), total_line, replicate 50 (CHR ''='')],
              txt_file =
                [replicate 50 (CHR ''=''), heading, ''Generated: '' @ now,
                 ''Sort Order: '' @ ''By '' @ title sort_by, replicate 50 (CHR ''=''), columns,
                 replicate 50 (CHR ''-'')]
                @ lines @ [replicate 50 (CHR ''-''), total_line, replicate 50 (CHR ''='')],
              csv_file =
                [[CStr column, CStr ''Unique_Patients'']]
                @ map (\<lambda>(location, count). [CStr location, CInt count]) sorted_items
                @ [[CStr ''TOTAL'', CInt total_unique_patients]]\<rparr>)"

definition generate_report_location :: "string \<Rightarrow> (string \<times> int) list \<Rightarrow> string \<Rightarrow> report_result" where
  "generate_report_location now location_count sort_by =
     generate_report_with ''UNIQUE PATIENT COUNT BY LOCATION REPORT'' ''Location'' now location_count sort_by"

definition generate_report_payor :: "string \<Rightarrow> (string \<times> int) list \<Rightarrow> string \<Rightarrow> report_result" where
  "generate_report_payor now payor_count sort_by =
     generate_report_with ''UNIQUE PATIENT COUNT BY PAYOR REPORT'' ''Payor'' now payor_count sort_by"

section \<open>Completeness analysis (analyze_data_gaps)\<close>

text \<open>
  The variables of the loop of \<open>analyze_data_gaps\<close> in clientByLocation.py (and, word
  for word, clientByPayerType.py): two sets of patient names and two counters.
\<close>

record gaps_state =
  has_payor_no_location :: "string set"
  has_location_no_payor :: "string set"
  has_both_rows :: int
  has_neither_rows :: int

definition gaps_step :: "string \<Rightarrow> string \<Rightarrow> string \<Rightarrow> gaps_state \<Rightarrow> gaps_state" where
  "gaps_step location payor patient st =
     (if payor \<noteq> [] \<and> location = [] then
        (if patient \<noteq> [] then st\<lparr>has_payor_no_location := insert patient (has_payor_no_location st)\<rparr>
         else st)
      else if location \<noteq> [] \<and> payor = [] then
        (if patient \<noteq> [] then st\<lparr>has_location_no_payor := insert patient (has_location_no_payor st)\<rparr>
         else st)
      else if location \<noteq> [] \<and> payor \<noteq> [] then st\<lparr>has_both_rows := has_both_rows st + 1\<rparr>
      else st\<lparr>has_neither_rows := has_neither_rows st + 1\<rparr>)"

text \<open>
  The three fields are read with \<open>row.get(k, '').strip()\<close>, which raises on a \<open>None\<close>
  value; the exception leaves the function.
\<close>

fun gaps_loop :: "row list \<Rightarrow> gaps_state \<Rightarrow> error + gaps_state" where
  "gaps_loop [] st = Inr st"
| "gaps_loop (row # rest) st =
     (case py_strip (get_default row ''Location'' []) of
        Inl e \<Rightarrow> Inl e
      | Inr location \<Rightarrow>
     (case py_strip (get_default row ''Payor'' []) of
        Inl e \<Rightarrow> Inl e
      | Inr payor \<Rightarrow>
     (case py_strip (get_default row ''Patient'' []) of
        Inl e \<Rightarrow> Inl e
      | Inr patient \<Rightarrow> gaps_loop rest (gaps_step location payor patient st))))"

record gaps_summary =
  total_records :: int
  has_both :: int
  has_both_pct :: rat
  payor_no_location :: int
  payor_no_location_pct :: rat
  location_no_payor :: int
  location_no_payor_pct :: rat
  has_neither :: int
  has_neither_pct :: rat
  patients_payor_no_location :: "string list"
  patients_location_no_payor :: "string list"

text \<open>\<open>(n / total_records * 100) if total_records > 0 else 0\<close>, \<open>n_rows\<close> being \<open>total_records\<close>.\<close>

definition pct_of :: "int \<Rightarrow> int \<Rightarrow> rat" where
  "pct_of n n_rows = (if n_rows > 0 then of_int n / of_int n_rows * 100 else 0)"

definition summarize :: "int \<Rightarrow> string set \<Rightarrow> string set \<Rightarrow> int \<Rightarrow> int \<Rightarrow> gaps_summary" where
  "summarize n_rows payor_only location_only both neither =
     \<lparr>total_records = n_rows,
      has_both = both,
      has_both_pct = pct_of both n_rows,
      payor_no_location = int (card payor_only),
      payor_no_location_pct = pct_of (int (card payor_only)) n_rows,
      location_no_payor = int (card location_only),
      location_no_payor_pct = pct_of (int (card location_only)) n_rows,
      has_neither = neither,
      has_neither_pct = pct_of neither n_rows,
      patients_payor_no_location = sorted_list_of_set payor_only,
      patients_location_no_payor = sorted_list_of_set location_only\<rparr>"

definition analyze_data_gaps :: "row list \<Rightarrow> error + gaps_summary" where
  "analyze_data_gaps data =
     (case gaps_loop data
             \<lparr>has_payor_no_location = {}, has_location_no_payor = {}, has_both_rows = 0,
              has_neither_rows = 0\<rparr> of
        Inl e \<Rightarrow> Inl e
      | Inr st \<Rightarrow>
          Inr (summarize (int (length data)) (has_payor_no_location st) (has_location_no_payor st)
                 (has_both_rows st) (has_neither_rows st)))"

text \<open>
  The row counts of the four presence classes, for comparison: how many rows have a
  non-blank \<open>Payor\<close> and a blank \<open>Location\<close>, and so on. (A row is classified by its
  stripped \<open>Location\<close> and \<open>Payor\<close>.)
\<close>

definition present :: "row \<Rightarrow> string \<Rightarrow> bool" where
  "present row k = (case get_default row k [] of PyNone \<Rightarrow> False | PyStr s \<Rightarrow> strip s \<noteq> [])"

definition rows_where :: "bool \<Rightarrow> bool \<Rightarrow> row list \<Rightarrow> int" where
  "rows_where loc pay data =
     int (length (filter (\<lambda>row. present row ''Location'' = loc \<and> present row ''Payor'' = pay) data))"

text \<open>
  The loop of \<open>analyze_data_gaps\<close> in clientByLocationAndPayer.py keeps two more
  dictionaries: the patients without location by payor, and those without payor by
  location.
\<close>

record gaps_state2 = gaps_state +
  payor_only_by_payor :: "(string \<times> string set) list"
  location_only_by_location :: "(string \<times> string set) list"

definition gaps_step2 :: "string \<Rightarrow> string \<Rightarrow> string \<Rightarrow> gaps_state2 \<Rightarrow> gaps_state2" where
  "gaps_step2 location payor patient st =
     (if payor \<noteq> [] \<and> location = [] then
        (if patient \<noteq> [] then
           st\<lparr>has_payor_no_location := insert patient (has_payor_no_location st),
              payor_only_by_payor := add_patient payor patient (payor_only_by_payor st)\<rparr>
         else st)
      else if location \<noteq> [] \<and> payor = [] then
        (if patient \<noteq> [] then
           st\<lparr>has_location_no_payor := insert patient (has_location_no_payor st),
              location_only_by_location := add_patient location patient (location_only_by_location st)\<rparr>
         else st)
      else if location \<noteq> [] \<and> payor \<noteq> [] then st\<lparr>has_both_rows := has_both_rows st + 1\<rparr>
      else st\<lparr>has_neither_rows := has_neither_rows st + 1\<rparr>)"

fun gaps_loop2 :: "row list \<Rightarrow> gaps_state2 \<Rightarrow> error + gaps_state2" where
  "gaps_loop2 [] st = Inr st"
| "gaps_loop2 (row # rest) st =
     (case py_strip (get_default row ''Location'' []) of
        Inl e \<Rightarrow> Inl e
      | Inr location \<Rightarrow>
     (case py_strip (get_default row ''Payor'' []) of
        Inl e \<Rightarrow> Inl e
      | Inr payor \<Rightarrow>
     (case py_strip (get_default row ''Patient'' []) of
        Inl e \<Rightarrow> Inl e
      | Inr patient \<Rightarrow> gaps_loop2 rest (gaps_step2 location payor patient st))))"

text \<open>
  The four lines of the summary that start with "Records with", as the three scripts
  print them and write them to their gap files.
\<close>

definition records_lines :: "gaps_summary \<Rightarrow> string list" where
  "records_lines g =
     [''Records with both Location and Payor: '' @ show_int (has_both g)
        @ '' ('' @ fmt_1f (has_both_pct g) @ ''%)'',
      ''Records with Payor but NO Location: '' @ show_int (payor_no_location g)
        @ '' ('' @ fmt_1f (payor_no_location_pct g) @ ''%)'',
      ''Records with Location but NO Payor: '' @ show_int (location_no_payor g)
        @ '' ('' @ fmt_1f (location_no_payor_pct g) @ ''%)'',
      ''Records with neither: '' @ show_int (has_neither g)
        @ '' ('' @ fmt_1f (has_neither_pct g) @ ''%)'']"

text \<open>
  The breakdown on the console: \<open>sorted(d.items(), key=lambda x: -len(x[1]))[:5]\<close>, a
  heading and one printed line for each group, nothing for an empty dictionary.
\<close>

definition console_groups :: "(string \<times> string set) list \<Rightarrow> (string \<times> string set) list" where
  "console_groups d = take 5 (sort_key (\<lambda>x. - int (card (snd x))) d)"

definition group_line :: "string \<times> string set \<Rightarrow> string" where
  "group_line g = ''  '' @ fst g @ '': '' @ show_nat (card (snd g)) @ '' patients''"

definition console_breakdown :: "string \<Rightarrow> (string \<times> string set) list \<Rightarrow> string list" where
  "console_breakdown heading d =
     (if d = [] then [] else heading # map group_line (console_groups d))"

text \<open>The variables before the first row.\<close>

definition gaps_init :: gaps_state2 where
  "gaps_init =
     \<lparr>has_payor_no_location = {}, has_location_no_payor = {}, has_both_rows = 0,
      has_neither_rows = 0, payor_only_by_payor = [], location_only_by_location = []\<rparr>"

text \<open>
  \<open>analyze_data_gaps\<close> of clientByLocationAndPayer.py. The module binds \<open>datetime\<close>
  inside \<open>generate_summary_report\<close> only, so the statement that follows the console
  summary, \<open>timestamp = datetime.now().strftime(...)\<close>, raises \<open>NameError\<close>; it stands
  before the \<open>try\<close>. The function therefore prints the summary and the two breakdowns and
  then stops: the gap file is not opened and no summary is returned. The result is the
  list of the printed lines and the outcome, which is always an error (that of the loop
  when a field is \<open>None\<close>, before anything is printed).
\<close>

definition analyze_data_gaps_combined :: "row list \<Rightarrow> string list \<times> (error + gaps_summary)" where
  "analyze_data_gaps_combined data =
     (case gaps_loop2 data gaps_init of
        Inl e \<Rightarrow> ([], Inl e)
      | Inr st \<Rightarrow>
          (let gaps_summary = summarize (int (length data)) (has_payor_no_location st)
                                (has_location_no_payor st) (has_both_rows st) (has_neither_rows st)
           in ([newline # replicate 70 (CHR ''=''),
                ''DATA QUALITY ANALYSIS - COMPREHENSIVE REPORT'',
                replicate 70 (CHR ''=''),
                ''Total Records: '' @ show_int (total_records gaps_summary)]
               @ records_lines gaps_summary
               @ console_breakdown (newline # ''Payors with patients missing location data:'')
                   (payor_only_by_payor st)
               @ console_breakdown (newline # ''Locations with patients missing payor data:'')
                   (location_only_by_location st)
               @ [replicate 70 (CHR ''='')],
               Inl NameError)))"

text \<open>
  The patients a partial partition holds under a value of its present field: the trimmed
  names of the rows where that field is present with this value, the other field is
  blank and the patient is named.
\<close>

definition only_under :: "string \<Rightarrow> string \<Rightarrow> row list \<Rightarrow> string \<Rightarrow> string set" where
  "only_under field_a field_b data v =
     entity ` set (filter (\<lambda>row. present row field_a \<and> \<not> present row field_b
                              \<and> present row ''Patient''
                              \<and> strip (the_str (get row field_a)) = v) data)"




section \<open>Summary matrix (generate_summary_report)\<close>

text \<open>
  \<open>len(location_payer_data[location].get(payor, set()))\<close>. The locations the function
  asks for are the keys of the dictionary itself, so the outer lookup always finds one.
\<close>

definition count_at :: "(string \<times> (string \<times> string set) list) list \<Rightarrow> string \<Rightarrow> string \<Rightarrow> int" where
  "count_at location_payer_data location payor =
     (case map_of location_payer_data location of
        None \<Rightarrow> 0
      | Some by_payor \<Rightarrow>
          (case map_of by_payor payor of None \<Rightarrow> 0 | Some patients \<Rightarrow> int (card patients)))"

definition all_payors :: "(string \<times> (string \<times> string set) list) list \<Rightarrow> string set" where
  "all_payors location_payer_data =
     fold (\<lambda>(location, by_payor) acc. acc \<union> set (map fst by_payor)) location_payer_data {}"

definition location_total :: "(string \<times> (string \<times> string set) list) list \<Rightarrow> string list \<Rightarrow> string \<Rightarrow> int" where
  "location_total d sorted_payors location = sum_list (map (\<lambda>payor. count_at d location payor) sorted_payors)"

definition payor_total :: "(string \<times> (string \<times> string set) list) list \<Rightarrow> string list \<Rightarrow> string \<Rightarrow> int" where
  "payor_total d sorted_locations payor = sum_list (map (\<lambda>loc. count_at d loc payor) sorted_locations)"

text \<open>The marker appended to a console line when there are more than five payors.\<close>

definition more_marker :: "string list \<Rightarrow> string" where
  "more_marker sorted_payors = (if length sorted_payors > 5 then ''  ...'' else [])"

definition generate_summary_report ::
  "string \<Rightarrow> (string \<times> (string \<times> string set) list) list \<Rightarrow> outputs" where
  "generate_summary_report now location_payer_data =
     (let sorted_payors = sorted_list_of_set (all_payors location_payer_data);
          sorted_locations = sort (map fst location_payer_data);
          grand_total = sum_list (map (payor_total location_payer_data sorted_locations) sorted_payors)
      in \<lparr>console =
             [[newline, newline] @ replicate 70 (CHR ''=''),
              ''SUMMARY MATRIX: Unique Patients by Location and Payor'',
              replicate 70 (CHR ''=''),
              ljust 20 ''Location'' @ concat (map (\<lambda>payor. rjust 13 (take 12 payor)) (take 5 sorted_payors))
                @ more_marker sorted_payors,
              replicate 70 (CHR ''-'')]
             @ map (\<lambda>location.
                      ljust 20 location
                      @ concat (map (\<lambda>payor. rjust 13 (show_int (count_at location_payer_data location payor)))
                                  (take 5 sorted_payors))
                      @ more_marker sorted_payors)
                 sorted_locations,
           txt_file =
             [replicate 70 (CHR ''=''),
              ''SUMMARY MATRIX: Unique Patients by Location and Payor'',
              ''Generated: '' @ now,
              replicate 70 (CHR ''=''),
              ''Location'' @ [tab] @ concat (map (\<lambda>payor. payor @ [tab]) sorted_payors) @ ''Total'',
              replicate 70 (CHR ''-'')]
             @ map (\<lambda>location.
                      location @ [tab]
                      @ concat (map (\<lambda>payor. show_int (count_at location_payer_data location payor) @ [tab])
                                  sorted_payors)
                      @ show_int (location_total location_payer_data sorted_payors location))
                 sorted_locations
             @ [replicate 70 (CHR ''-''),
                ''TOTAL'' @ [tab]
                @ concat (map (\<lambda>payor. show_int (payor_total location_payer_data sorted_locations payor) @ [tab])
                            sorted_payors)
                @ show_int grand_total],
           csv_file =
             [[CStr ''Location''] @ map CStr sorted_payors @ [CStr ''Total'']]
             @ map (\<lambda>location.
                      [CStr location]
                      @ map (\<lambda>payor. CInt (count_at location_payer_data location payor)) sorted_payors
                      @ [CInt (location_total location_payer_data sorted_payors location)])
                 sorted_locations
             @ [[CStr ''TOTAL'']
                @ map (\<lambda>payor. CInt (payor_total location_payer_data sorted_locations payor)) sorted_payors
                @ [CInt grand_total]]\<rparr>)"

text \<open>Reading the totals back from the rows written to the CSV file.\<close>

fun cell_int :: "cell \<Rightarrow> int" where
  "cell_int (CInt i) = i"
| "cell_int (CStr s) = 0"

definition row_totals :: "cell list list \<Rightarrow> int list" where
  "row_totals rows = map (\<lambda>r. cell_int (last r)) (butlast (tl rows))"

definition column_totals :: "cell list list \<Rightarrow> int list" where
  "column_totals rows = map cell_int (butlast (tl (last rows)))"

definition grand_total_cell :: "cell list list \<Rightarrow> int" where
  "grand_total_cell rows = cell_int (last (last rows))"

section \<open>Telemedicine percentage (telemedPercentage.py)\<close>

record stats =
  total_visits :: int
  telemed_visits :: int
  percentage :: rat
  payors :: "string set"
  services :: "string set"

text \<open>
  The body of the \<open>if\<close> of \<open>process_okc_telemedicine_percentage\<close> once the payor has
  been read: a new patient gets the zero entry, then the counters and the two sets are
  updated.
\<close>

definition record_visit :: "string \<Rightarrow> string \<Rightarrow> string \<Rightarrow> (string \<times> stats) list \<Rightarrow> (string \<times> stats) list" where
  "record_visit patient service payor patient_stats =
     (let s0 = (case map_of patient_stats patient of
                  None \<Rightarrow> \<lparr>total_visits = 0, telemed_visits = 0, percentage = 0, payors = {}, services = {}\<rparr>
                | Some s \<Rightarrow> s);
          s1 = s0\<lparr>total_visits := total_visits s0 + 1\<rparr>;
          s2 = (if contains ''telemedicine'' (lower service)
                then s1\<lparr>telemed_visits := telemed_visits s1 + 1\<rparr> else s1);
          s3 = (if payor \<noteq> [] then s2\<lparr>payors := insert payor (payors s2)\<rparr> else s2);
          s4 = (if service \<noteq> [] then s3\<lparr>services := insert service (services s3)\<rparr> else s3)
      in AList.update patient s4 patient_stats)"

fun okc_loop :: "row list \<Rightarrow> (string \<times> stats) list \<Rightarrow> error + (string \<times> stats) list" where
  "okc_loop [] patient_stats = Inr patient_stats"
| "okc_loop (row # rest) patient_stats =
     (case py_strip (get_default row ''Location'' []) of
        Inl e \<Rightarrow> Inl e
      | Inr location \<Rightarrow>
     (case py_strip (get_default row ''Patient'' []) of
        Inl e \<Rightarrow> Inl e
      | Inr patient \<Rightarrow>
     (case py_strip (get_default row ''Service'' []) of
        Inl e \<Rightarrow> Inl e
      | Inr service \<Rightarrow>
          if upper location = ''OKC'' \<and> patient \<noteq> [] then
            (case py_strip (get_default row ''Payor'' []) of
               Inl e \<Rightarrow> Inl e
             | Inr payor \<Rightarrow> okc_loop rest (record_visit patient service payor patient_stats))
          else okc_loop rest patient_stats)))"

definition set_percentage :: "stats \<Rightarrow> stats" where
  "set_percentage s =
     (if total_visits s > 0
      then s\<lparr>percentage := of_int (telemed_visits s) / of_int (total_visits s) * 100\<rparr> else s)"

definition process_okc_telemedicine_percentage :: "row list \<Rightarrow> error + (string \<times> stats) list" where
  "process_okc_telemedicine_percentage data =
     (case okc_loop data [] of
        Inl e \<Rightarrow> Inl e
      | Inr patient_stats \<Rightarrow> Inr (map (\<lambda>(patient, s). (patient, set_percentage s)) patient_stats))"

text \<open>The four conditions that count the usage tiers in the report.\<close>

definition is_high :: "stats \<Rightarrow> bool" where
  "is_high s = (percentage s \<ge> 75)"

definition is_medium :: "stats \<Rightarrow> bool" where
  "is_medium s = (25 \<le> percentage s \<and> percentage s < 75)"

definition is_low :: "stats \<Rightarrow> bool" where
  "is_low s = (0 < percentage s \<and> percentage s < 25)"

definition is_none :: "stats \<Rightarrow> bool" where
  "is_none s = (percentage s = 0)"

definition users :: "(stats \<Rightarrow> bool) \<Rightarrow> (string \<times> stats) list \<Rightarrow> int" where
  "users tier patient_stats = int (length (filter (\<lambda>(patient, s). tier s) patient_stats))"

text \<open>The order of the listing, by \<open>(-percentage, -telemed_visits, patient)\<close>.\<close>

definition sort_patients :: "(string \<times> stats) list \<Rightarrow> (string \<times> stats) list" where
  "sort_patients patient_stats =
     sort_key (\<lambda>x. (- percentage (snd x), - telemed_visits (snd x), fst x)) patient_stats"

text \<open>\<open>s[:18] + '..' if len(s) > 20 else s\<close>.\<close>

definition display_limited :: "string \<Rightarrow> string" where
  "display_limited s = (if length s > 20 then take 18 s @ ''..'' else s)"

definition payors_str :: "string set \<Rightarrow> string" where
  "payors_str ps = join '', '' (sorted_list_of_set ps)"

text \<open>A patient line of the report: the four leading columns, then the payors.\<close>

definition percentage_cells :: "string \<Rightarrow> stats \<Rightarrow> string" where
  "percentage_cells patient s =
     ljust 30 patient @ '' '' @ rjust 8 (show_int (total_visits s)) @ '' ''
     @ rjust 8 (show_int (telemed_visits s)) @ '' '' @ (rjust 11 (fmt_1f (percentage s)) @ ''%'') @ '' ''"

definition percentage_line :: "string \<Rightarrow> stats \<Rightarrow> string" where
  "percentage_line patient s =
     percentage_cells patient s @ ljust 20 (display_limited (payors_str (payors s)))"

definition percentage_csv_row :: "string \<Rightarrow> stats \<Rightarrow> cell list" where
  "percentage_csv_row patient s =
     [CStr patient, CInt (total_visits s), CInt (telemed_visits s), CStr (fmt_1f (percentage s)),
      CStr (payors_str (payors s))]"

text \<open>\<open>xs[-3:]\<close>.\<close>

definition last3 :: "'a list \<Rightarrow> 'a list" where
  "last3 xs = drop (length xs - 3) xs"

text \<open>
  The lines before the patient table. The sign of "greater or equal" in the line of the
  high tier is written as the three bytes it has in the UTF-8 file.
\<close>

definition percentage_head :: "string \<Rightarrow> (string \<times> stats) list \<Rightarrow> string list" where
  "percentage_head now patient_stats =
     (let total_visits_all = sum_list (map (\<lambda>(patient, s). total_visits s) patient_stats);
          total_telemed_all = sum_list (map (\<lambda>(patient, s). telemed_visits s) patient_stats);
          overall_percentage = pct_of total_telemed_all total_visits_all
      in [replicate 80 (CHR ''=''),
          ''TELEMEDICINE USAGE PERCENTAGE REPORT - OKC LOCATION'',
          ''Generated: '' @ now,
          replicate 80 (CHR ''=''),
          newline # ''Total OKC Patients: '' @ show_nat (length patient_stats),
          ''Total OKC Visits: '' @ show_int total_visits_all,
          ''Total Telemedicine Visits: '' @ show_int total_telemed_all,
          ''Overall Telemedicine Usage: '' @ fmt_1f overall_percentage @ ''%'',
          newline # ''Usage Distribution:'',
          ''  High ('' @ [CHR 0xE2, CHR 0x89, CHR 0xA5] @ ''75%): '' @ show_int (users is_high patient_stats) @ '' patients'',
          ''  Medium (25-74%): '' @ show_int (users is_medium patient_stats) @ '' patients'',
          ''  Low (1-24%): '' @ show_int (users is_low patient_stats) @ '' patients'',
          ''  None (0%): '' @ show_int (users is_none patient_stats) @ '' patients'',
          newline # replicate 80 (CHR ''-''),
          ''PATIENT DETAILS'',
          replicate 80 (CHR ''-''),
          ljust 30 ''Patient'' @ '' '' @ rjust 8 ''Total'' @ '' '' @ rjust 8 ''Telemed'' @ '' ''
            @ rjust 12 ''Percentage'' @ '' '' @ ljust 20 ''Payors'',
          replicate 80 (CHR ''-'')])"

definition generate_telemedicine_percentage_report :: "string \<Rightarrow> (string \<times> stats) list \<Rightarrow> outputs" where
  "generate_telemedicine_percentage_report now patient_stats =
     (let sorted_patients = sort_patients patient_stats;
          console_lines = percentage_head now patient_stats;
          report_lines = console_lines
            @ map (\<lambda>(patient, s). percentage_line patient s) sorted_patients
            @ [replicate 80 (CHR ''-''), replicate 80 (CHR ''='')]
      in \<lparr>console =
             (if length console_lines > 40
              then take 40 console_lines @ [newline # ''... (see full report in file)''] @ last3 report_lines
              else console_lines @ last3 report_lines),
           txt_file = report_lines,
           csv_file =
             [CStr ''Patient'', CStr ''Total_Visits'', CStr ''Telemed_Visits'', CStr ''Percentage'',
              CStr ''Payors'']
             # map (\<lambda>(patient, s). percentage_csv_row patient s) sorted_patients\<rparr>)"

text \<open>
  For the statements about \<open>process_okc_telemedicine_percentage\<close>: the patient a row
  counts for (the row is in the OKC location and names a patient), the rows counting for
  a patient, and whether the service of a row contains the keyword.
\<close>

definition okc_patient :: "row \<Rightarrow> string option" where
  "okc_patient row =
     (case (get_default row ''Location'' [], get_default row ''Patient'' []) of
        (PyStr location, PyStr patient) \<Rightarrow>
          if upper (strip location) = ''OKC'' \<and> strip patient \<noteq> [] then Some (strip patient) else None
      | _ \<Rightarrow> None)"

definition okc_rows :: "row list \<Rightarrow> string \<Rightarrow> row list" where
  "okc_rows data patient = filter (\<lambda>row. okc_patient row = Some patient) data"

definition is_telemed :: "row \<Rightarrow> bool" where
  "is_telemed row =
     (case get_default row ''Service'' [] of
        PyStr service \<Rightarrow> contains ''telemedicine'' (lower (strip service))
      | PyNone \<Rightarrow> False)"

text \<open>Exactly one of the four tier conditions holds.\<close>

definition in_one_tier :: "stats \<Rightarrow> bool" where
  "in_one_tier s =
     ((is_high s \<or> is_medium s \<or> is_low s \<or> is_none s)
      \<and> \<not> (is_high s \<and> is_medium s) \<and> \<not> (is_high s \<and> is_low s) \<and> \<not> (is_high s \<and> is_none s)
      \<and> \<not> (is_medium s \<and> is_low s) \<and> \<not> (is_medium s \<and> is_none s) \<and> \<not> (is_low s \<and> is_none s))"

text \<open>The two counters of a patient, before the percentages are filled in.\<close>

definition counters :: "(string \<times> stats) list \<Rightarrow> string \<Rightarrow> (int \<times> int) option" where
  "counters ps patient = map_option (\<lambda>s. (total_visits s, telemed_visits s)) (map_of ps patient)"

section \<open>Telemedicine services (telemedSort.py)\<close>







section \<open>Example rows\<close>

text \<open>A row of a file whose lines are complete: every listed column has a string.\<close>

definition mk_row :: "(string \<times> string) list \<Rightarrow> row" where
  "mk_row kvs = map_of (map (\<lambda>(k, v). (k, PyStr v)) kvs)"

section \<open>Reading the keys of a CSV table\<close>

text \<open>The keys of the data rows of a CSV table, between the header and the totals row.\<close>

fun cell_str :: "cell \<Rightarrow> string" where
  "cell_str (CStr s) = s"
| "cell_str (CInt i) = []"

definition listed_keys :: "cell list list \<Rightarrow> string list" where
  "listed_keys rows = map (\<lambda>r. cell_str (hd r)) (butlast (tl rows))"

section \<open>Properties of the grouping aggregators\<close>

lemma map_of_add_patient:
  "map_of (add_patient key p d) = (map_of d)(key \<mapsto> insert p (sets_of d key))"
  by (simp add: add_patient_def sets_of_def update_conv' split: option.splits)

lemma distinct_add_patient:
  "distinct (map fst d) \<Longrightarrow> distinct (map fst (add_patient key p d))"
  by (simp add: add_patient_def distinct_update split: option.splits)

lemma observed_Cons:
  "observed cols (row # rest) key =
     (if usable cols row \<and> key_of cols row = key then insert (entity row) (observed cols rest key)
      else observed cols rest key)"
  by (simp add: observed_def)

lemma group_loop_lookup:
  "map_of (group_loop col data d) key =
     (if observed [col] data [key] = {} then map_of d key
      else Some (observed [col] data [key] \<union> sets_of d key))"
proof (induction data arbitrary: d)
  case Nil
  show ?case by (simp add: observed_def)
next
  case (Cons row rest)
  show ?case
    by (auto simp: Cons.IH observed_Cons usable_def key_of_def entity_def Let_def
        map_of_add_patient sets_of_def split: option.splits)
qed

lemma process_client_by_lookup:
  "map_of (process_client_by col data) key =
     (if observed [col] data [key] = {} then None else Some (int (card (observed [col] data [key]))))"
  by (simp add: process_client_by_def map_of_map group_loop_lookup sets_of_def)

lemma map_of_add_patient2:
  "map_of (add_patient2 l py p d) =
     (map_of d)(l \<mapsto> add_patient py p (case map_of d l of None \<Rightarrow> [] | Some pys \<Rightarrow> pys))"
  by (simp add: add_patient2_def update_conv' split: option.splits)

lemma cell_set_add_patient2:
  "cell_set (add_patient2 l py p d) l' py' =
     (if l' = l \<and> py' = py then Some (insert p (case cell_set d l py of None \<Rightarrow> {} | Some ps \<Rightarrow> ps))
      else cell_set d l' py')"
  by (auto simp: cell_set_def map_of_add_patient2 map_of_add_patient sets_of_def split: option.splits)

lemma location_payer_loop_lookup:
  "cell_set (location_payer_loop data d) l py =
     (if observed [''Location'', ''Payor''] data [l, py] = {} then cell_set d l py
      else Some (observed [''Location'', ''Payor''] data [l, py]
                 \<union> (case cell_set d l py of None \<Rightarrow> {} | Some ps \<Rightarrow> ps)))"
proof (induction data arbitrary: d)
  case Nil
  show ?case by (simp add: observed_def)
next
  case (Cons row rest)
  show ?case
    by (auto simp: Cons.IH observed_Cons usable_def key_of_def entity_def Let_def
        cell_set_add_patient2 split: option.splits)
qed

lemma group_loop_append:
  "group_loop col (xs @ ys) d = group_loop col ys (group_loop col xs d)"
  by (induction xs arbitrary: d) (simp_all add: Let_def)

lemma location_payer_loop_append:
  "location_payer_loop (xs @ ys) d = location_payer_loop ys (location_payer_loop xs d)"
  by (induction xs arbitrary: d) (simp_all add: Let_def)

lemma group_loop_same:
  "\<forall>r\<in>set data. usable [col] r \<and> key_of [col] r = [key] \<and> entity r = p \<Longrightarrow>
   group_loop col data [(key, {p})] = [(key, {p})]"
  by (induction data) (auto simp: usable_def key_of_def entity_def add_patient_def Let_def)

lemma process_client_by_duplicates:
  assumes "data \<noteq> []" "\<forall>r\<in>set data. usable [col] r \<and> key_of [col] r = [key] \<and> entity r = p"
  shows "process_client_by col data = [(key, 1)]"
proof -
  from assms(1) obtain r rest where d: "data = r # rest" by (cases data) auto
  with assms(2) have r: "usable [col] r" "key_of [col] r = [key]" "entity r = p" by auto
  from d assms(2) have rest: "\<forall>r\<in>set rest. usable [col] r \<and> key_of [col] r = [key] \<and> entity r = p" by auto
  have "group_loop col data [] = group_loop col rest [(key, {p})]"
    using r by (simp add: d usable_def key_of_def entity_def add_patient_def Let_def)
  then show ?thesis by (simp add: process_client_by_def group_loop_same[OF rest])
qed

lemma process_client_by_skip:
  "\<not> usable [col] row \<Longrightarrow> process_client_by col (xs @ row # ys) = process_client_by col (xs @ ys)"
  by (auto simp: process_client_by_def group_loop_append usable_def Let_def)

lemma location_and_payer_skip:
  "\<not> usable [''Location'', ''Payor''] row \<Longrightarrow>
   process_client_by_location_and_payer (xs @ row # ys) = process_client_by_location_and_payer (xs @ ys)"
  by (auto simp: process_client_by_location_and_payer_def location_payer_loop_append usable_def Let_def)

text \<open>
  C1. The count stored under a key is the number of distinct trimmed \<open>Patient\<close> values of
  the usable rows with that key, for the grouping by location, by payor, and by location
  and payor; a key no usable row has is not in the result. Rows that all carry the same
  key and the same trimmed patient give the count 1, however many they are, and a row
  whose dimension field or \<open>Patient\<close> field is missing or blank changes nothing.
\<close>

theorem grouping_counts_distinct_entities:
  "map_of (process_client_by_location data) key =
     (if observed [''Location''] data [key] = {} then None
      else Some (int (card (observed [''Location''] data [key]))))
   \<and> map_of (process_client_by_payor data) key =
     (if observed [''Payor''] data [key] = {} then None
      else Some (int (card (observed [''Payor''] data [key]))))
   \<and> map_option card (cell_set (process_client_by_location_and_payer data) location payor) =
     (if observed [''Location'', ''Payor''] data [location, payor] = {} then None
      else Some (card (observed [''Location'', ''Payor''] data [location, payor])))
   \<and> (dups \<noteq> [] \<and> (\<forall>r\<in>set dups. usable [''Location''] r \<and> key_of [''Location''] r = [key] \<and> entity r = p)
        \<longrightarrow> process_client_by_location dups = [(key, 1)])
   \<and> (\<not> usable [''Location''] row
        \<longrightarrow> process_client_by_location (xs @ row # ys) = process_client_by_location (xs @ ys))
   \<and> (\<not> usable [''Location'', ''Payor''] row
        \<longrightarrow> process_client_by_location_and_payer (xs @ row # ys)
            = process_client_by_location_and_payer (xs @ ys))"
  using process_client_by_duplicates[of dups "''Location''" key p]
  by (simp add: process_client_by_location_def process_client_by_payor_def process_client_by_lookup
      process_client_by_location_and_payer_def location_payer_loop_lookup cell_set_def[of "[]"]
      process_client_by_skip location_and_payer_skip[unfolded process_client_by_location_and_payer_def])

theorem grouping_counts_distinct_entities_witness:
  "usable [''Location''] (mk_row [(''Location'', '' OKC''), (''Payor'', ''Medicare''), (''Patient'', ''Smith, A '')])
   \<and> \<not> usable [''Location''] (mk_row [(''Location'', ''  ''), (''Payor'', ''Medicare''), (''Patient'', ''Smith, A'')])
   \<and> \<not> usable [''Location'', ''Payor''] (mk_row [(''Location'', ''  ''), (''Payor'', ''Medicare''), (''Patient'', ''Smith, A'')])
   \<and> map_of (process_client_by_location
        [mk_row [(''Location'', ''OKC''), (''Patient'', ''Smith, A'')],
         mk_row [(''Location'', ''OKC ''), (''Patient'', '' Jones, B'')],
         mk_row [(''Location'', '' OKC''), (''Patient'', ''Smith, A '')]]) ''OKC'' = Some 2
   \<and> map_of (process_client_by_payor
        [mk_row [(''Location'', ''OKC''), (''Patient'', ''Smith, A'')],
         mk_row [(''Location'', ''OKC ''), (''Patient'', '' Jones, B'')],
         mk_row [(''Location'', '' OKC''), (''Patient'', ''Smith, A '')]]) ''OKC'' = None
   \<and> process_client_by_location
        [mk_row [(''Location'', '' OKC''), (''Payor'', ''Medicare''), (''Patient'', ''Smith, A '')],
         mk_row [(''Location'', '' OKC''), (''Payor'', ''Medicare''), (''Patient'', ''Smith, A '')],
         mk_row [(''Location'', '' OKC''), (''Payor'', ''Medicare''), (''Patient'', ''Smith, A '')]]
       = [(''OKC'', 1)]
   \<and> process_client_by_location
        ([mk_row [(''Location'', ''OKC''), (''Patient'', ''Smith, A'')]]
         @ mk_row [(''Location'', ''  ''), (''Payor'', ''Medicare''), (''Patient'', ''Smith, A'')]
         # [mk_row [(''Location'', ''ARDMORE''), (''Patient'', ''Smith, A'')]])
       = process_client_by_location
        ([mk_row [(''Location'', ''OKC''), (''Patient'', ''Smith, A'')]]
         @ [mk_row [(''Location'', ''ARDMORE''), (''Patient'', ''Smith, A'')]])
   \<and> process_client_by_location_and_payer
        ([mk_row [(''Location'', ''OKC''), (''Patient'', ''Smith, A'')]]
         @ mk_row [(''Location'', ''  ''), (''Payor'', ''Medicare''), (''Patient'', ''Smith, A'')]
         # [mk_row [(''Location'', ''ARDMORE''), (''Patient'', ''Smith, A'')]])
       = process_client_by_location_and_payer
        ([mk_row [(''Location'', ''OKC''), (''Patient'', ''Smith, A'')]]
         @ [mk_row [(''Location'', ''ARDMORE''), (''Patient'', ''Smith, A'')]])"
  using grouping_counts_distinct_entities
    [where data = "[mk_row [(''Location'', ''OKC''), (''Patient'', ''Smith, A'')],
         mk_row [(''Location'', ''OKC ''), (''Patient'', '' Jones, B'')],
         mk_row [(''Location'', '' OKC''), (''Patient'', ''Smith, A '')]]"
       and key = "''OKC''" and location = "''OKC''" and payor = "''Medicare''"
       and dups = "[mk_row [(''Location'', '' OKC''), (''Payor'', ''Medicare''), (''Patient'', ''Smith, A '')],
         mk_row [(''Location'', '' OKC''), (''Payor'', ''Medicare''), (''Patient'', ''Smith, A '')],
         mk_row [(''Location'', '' OKC''), (''Payor'', ''Medicare''), (''Patient'', ''Smith, A '')]]"
       and p = "''Smith, A''"
       and xs = "[mk_row [(''Location'', ''OKC''), (''Patient'', ''Smith, A'')]]"
       and ys = "[mk_row [(''Location'', ''ARDMORE''), (''Patient'', ''Smith, A'')]]"
       and row = "mk_row [(''Location'', ''  ''), (''Payor'', ''Medicare''), (''Patient'', ''Smith, A'')]"]
  by (simp add: observed_def usable_def key_of_def entity_def get_def strip_def is_space_def mk_row_def card_insert_if)

section \<open>Properties of the summary matrix\<close>

lemma sum_list_swap:
  fixes f :: "'a \<Rightarrow> 'b \<Rightarrow> int"
  shows "(\<Sum>x\<leftarrow>xs. \<Sum>y\<leftarrow>ys. f x y) = (\<Sum>y\<leftarrow>ys. \<Sum>x\<leftarrow>xs. f x y)"
  by (induction xs) (simp_all add: sum_list_addf)

lemma row_totals_shape:
  "row_totals ([h] @ map (\<lambda>l. [CStr l] @ map (g l) ps @ [CInt (t l)]) ls @ [z]) = map t ls"
  by (simp add: row_totals_def butlast_append)

lemma csv_file_summary:
  "csv_file (generate_summary_report now d) =
     [[CStr ''Location''] @ map CStr (sorted_list_of_set (all_payors d)) @ [CStr ''Total'']]
     @ map (\<lambda>location. [CStr location]
              @ map (\<lambda>payor. CInt (count_at d location payor)) (sorted_list_of_set (all_payors d))
              @ [CInt (location_total d (sorted_list_of_set (all_payors d)) location)])
         (sort (map fst d))
     @ [[CStr ''TOTAL'']
        @ map (\<lambda>payor. CInt (payor_total d (sort (map fst d)) payor)) (sorted_list_of_set (all_payors d))
        @ [CInt (sum_list (map (payor_total d (sort (map fst d))) (sorted_list_of_set (all_payors d))))]]"
  by (simp add: generate_summary_report_def Let_def)

text \<open>
  C6. In the rows written for the summary matrix, the last cell of a location's row is the
  sum of the cells of that row and the cells of the last row are the sums of the columns,
  each cell being the number of distinct patients of the pair; the sum of the row totals
  and the sum of the column totals both equal the grand total in the corner.
\<close>

theorem summary_totals_consistent:
  "row_totals (csv_file (generate_summary_report now d)) =
     map (\<lambda>location. \<Sum>payor\<leftarrow>sorted_list_of_set (all_payors d). count_at d location payor)
       (sort (map fst d))
   \<and> column_totals (csv_file (generate_summary_report now d)) =
     map (\<lambda>payor. \<Sum>location\<leftarrow>sort (map fst d). count_at d location payor)
       (sorted_list_of_set (all_payors d))
   \<and> sum_list (row_totals (csv_file (generate_summary_report now d)))
     = grand_total_cell (csv_file (generate_summary_report now d))
   \<and> sum_list (column_totals (csv_file (generate_summary_report now d)))
     = grand_total_cell (csv_file (generate_summary_report now d))"
proof -
  let ?P = "sorted_list_of_set (all_payors d)" and ?L = "sort (map fst d)"
  let ?rows = "csv_file (generate_summary_report now d)"
  have r: "row_totals ?rows = map (location_total d ?P) ?L"
    unfolding csv_file_summary by (rule row_totals_shape)
  have c: "column_totals ?rows = map (payor_total d ?L) ?P"
    by (simp add: csv_file_summary column_totals_def butlast_append comp_def)
  have g: "grand_total_cell ?rows = sum_list (map (payor_total d ?L) ?P)"
    by (simp add: csv_file_summary grand_total_cell_def)
  have s: "sum_list (map (location_total d ?P) ?L) = sum_list (map (payor_total d ?L) ?P)"
    unfolding location_total_def payor_total_def by (rule sum_list_swap)
  show ?thesis
    using r c g s by (simp add: location_total_def payor_total_def)
qed

theorem summary_totals_consistent_witness:
  "sum_list (row_totals (csv_file (generate_summary_report ''2026''
     [(''OKC'', [(''Medicare'', {''a'', ''b''}), (''BCBS'', {''a''})]), (''ARDMORE'', [(''Medicare'', {''c''})])])))
   = grand_total_cell (csv_file (generate_summary_report ''2026''
     [(''OKC'', [(''Medicare'', {''a'', ''b''}), (''BCBS'', {''a''})]), (''ARDMORE'', [(''Medicare'', {''c''})])]))
   \<and> column_totals (csv_file (generate_summary_report ''2026''
     [(''OKC'', [(''Medicare'', {''a'', ''b''}), (''BCBS'', {''a''})]), (''ARDMORE'', [(''Medicare'', {''c''})])]))
     = [1, 3]
   \<and> row_totals (csv_file (generate_summary_report ''2026''
     [(''OKC'', [(''Medicare'', {''a'', ''b''}), (''BCBS'', {''a''})]), (''ARDMORE'', [(''Medicare'', {''c''})])]))
     = [1, 3]"
proof -
  have e: "column_totals (csv_file (generate_summary_report ''2026''
     [(''OKC'', [(''Medicare'', {''a'', ''b''}), (''BCBS'', {''a''})]), (''ARDMORE'', [(''Medicare'', {''c''})])]))
     = [1, 3]"
    "row_totals (csv_file (generate_summary_report ''2026''
     [(''OKC'', [(''Medicare'', {''a'', ''b''}), (''BCBS'', {''a''})]), (''ARDMORE'', [(''Medicare'', {''c''})])]))
     = [1, 3]"
    by code_simp+
  show ?thesis
    using summary_totals_consistent [of "''2026''"
     "[(''OKC'', [(''Medicare'', {''a'', ''b''}), (''BCBS'', {''a''})]), (''ARDMORE'', [(''Medicare'', {''c''})])]"] e
    by blast
qed

section \<open>Properties of the telemedicine percentages\<close>

lemma map_of_record_visit:
  "map_of (record_visit patient service payor ps) =
     (map_of ps)(patient \<mapsto>
        (let s0 = (case map_of ps patient of
                  None \<Rightarrow> \<lparr>total_visits = 0, telemed_visits = 0, percentage = 0, payors = {}, services = {}\<rparr>
                | Some s \<Rightarrow> s);
          s1 = s0\<lparr>total_visits := total_visits s0 + 1\<rparr>;
          s2 = (if contains ''telemedicine'' (lower service)
                then s1\<lparr>telemed_visits := telemed_visits s1 + 1\<rparr> else s1);
          s3 = (if payor \<noteq> [] then s2\<lparr>payors := insert payor (payors s2)\<rparr> else s2);
          s4 = (if service \<noteq> [] then s3\<lparr>services := insert service (services s3)\<rparr> else s3)
      in s4))"
  by (simp add: record_visit_def update_conv' Let_def)

lemma distinct_record_visit:
  "distinct (map fst ps) \<Longrightarrow> distinct (map fst (record_visit patient service payor ps))"
  by (simp add: record_visit_def distinct_update Let_def)

lemma counters_record_visit:
  "counters (record_visit patient service payor ps) p =
     (if p = patient then
        (case counters ps patient of
           None \<Rightarrow> Some (1, if contains ''telemedicine'' (lower service) then 1 else 0)
         | Some (t, m) \<Rightarrow> Some (t + 1, if contains ''telemedicine'' (lower service) then m + 1 else m))
      else counters ps p)"
  by (auto simp: counters_def map_of_record_visit Let_def split: option.splits)

lemma okc_rows_Cons:
  "okc_rows (row # rest) p =
     (if okc_patient row = Some p then row # okc_rows rest p else okc_rows rest p)"
  by (simp add: okc_rows_def)

lemma okc_loop_counters:
  "okc_loop data ps0 = Inr ps \<Longrightarrow>
   counters ps patient =
     (let t = int (length (okc_rows data patient));
          m = int (length (filter is_telemed (okc_rows data patient)))
      in case counters ps0 patient of
           None \<Rightarrow> if t = 0 then None else Some (t, m)
         | Some (t0, m0) \<Rightarrow> Some (t0 + t, m0 + m))"
proof (induction data arbitrary: ps0)
  case Nil
  then show ?case by (simp add: okc_rows_def split: option.splits)
next
  case (Cons row rest)
  show ?case
  proof (cases "get_default row ''Location'' []")
    case PyNone
    with Cons.prems show ?thesis by simp
  next
    case loc: (PyStr location)
    show ?thesis
    proof (cases "get_default row ''Patient'' []")
      case PyNone
      with Cons.prems loc show ?thesis by simp
    next
      case pat: (PyStr pt)
      show ?thesis
      proof (cases "get_default row ''Service'' []")
        case PyNone
        with Cons.prems loc pat show ?thesis by simp
      next
        case srv: (PyStr service)
        show ?thesis
        proof (cases "upper (strip location) = ''OKC'' \<and> strip pt \<noteq> []")
          case False
          with Cons.prems loc pat srv have "okc_loop rest ps0 = Inr ps" by auto
          moreover have "okc_patient row = None"
            using False loc pat by (auto simp: okc_patient_def)
          ultimately show ?thesis
            using Cons.IH[of ps0] by (simp add: okc_rows_Cons)
        next
          case True
          with Cons.prems loc pat srv obtain payor where
            r: "okc_loop rest (record_visit (strip pt) (strip service) payor ps0) = Inr ps"
            by (auto split: sum.splits)
          have o: "okc_patient row = Some (strip pt)"
            using True loc pat by (simp add: okc_patient_def)
          have t: "is_telemed row = contains ''telemedicine'' (lower (strip service))"
            using srv by (simp add: is_telemed_def)
          show ?thesis
            using Cons.IH[OF r] o t
            by (auto simp: okc_rows_Cons counters_record_visit Let_def split: option.splits)
        qed
      qed
    qed
  qed
qed

lemma okc_loop_distinct:
  "okc_loop data ps0 = Inr ps \<Longrightarrow> distinct (map fst ps0) \<Longrightarrow> distinct (map fst ps)"
proof (induction data arbitrary: ps0)
  case Nil
  then show ?case by simp
next
  case (Cons row rest)
  then show ?case
    by (auto split: sum.splits if_splits dest: distinct_record_visit)
qed

lemma set_percentage_counters [simp]:
  "total_visits (set_percentage s) = total_visits s"
  "telemed_visits (set_percentage s) = telemed_visits s"
  by (simp_all add: set_percentage_def)

lemma process_okc_lookup:
  assumes "process_okc_telemedicine_percentage data = Inr patient_stats"
  shows "map_option (\<lambda>s. (total_visits s, telemed_visits s)) (map_of patient_stats patient) =
           (if okc_rows data patient = [] then None
            else Some (int (length (okc_rows data patient)),
                       int (length (filter is_telemed (okc_rows data patient)))))"
    and "distinct (map fst patient_stats)"
    and "(patient, s) \<in> set patient_stats \<Longrightarrow>
           0 < total_visits s \<and> 0 \<le> telemed_visits s \<and> telemed_visits s \<le> total_visits s
           \<and> percentage s = of_int (telemed_visits s) / of_int (total_visits s) * 100"
proof -
  from assms obtain ps where l: "okc_loop data [] = Inr ps"
    and r: "patient_stats = map (\<lambda>(patient, s). (patient, set_percentage s)) ps"
    by (auto simp: process_okc_telemedicine_percentage_def split: sum.splits)
  have c: "map_option (\<lambda>s. (total_visits s, telemed_visits s)) (map_of patient_stats p) = counters ps p" for p
    by (simp add: r counters_def map_of_map option.map_comp comp_def)
  show 1: "map_option (\<lambda>s. (total_visits s, telemed_visits s)) (map_of patient_stats patient) =
           (if okc_rows data patient = [] then None
            else Some (int (length (okc_rows data patient)),
                       int (length (filter is_telemed (okc_rows data patient)))))"
    using okc_loop_counters[OF l, of patient] by (simp add: c counters_def Let_def)
  show d: "distinct (map fst patient_stats)"
    using okc_loop_distinct[OF l] by (simp add: r comp_def case_prod_unfold)
  show "0 < total_visits s \<and> 0 \<le> telemed_visits s \<and> telemed_visits s \<le> total_visits s
           \<and> percentage s = of_int (telemed_visits s) / of_int (total_visits s) * 100"
    if "(patient, s) \<in> set patient_stats"
  proof -
    from that r obtain s0 where s0: "(patient, s0) \<in> set ps" "s = set_percentage s0" by auto
    have "distinct (map fst ps)" using okc_loop_distinct[OF l] by simp
    with s0 have "map_of ps patient = Some s0" by simp
    with okc_loop_counters[OF l, of patient]
    have "0 < total_visits s0 \<and> 0 \<le> telemed_visits s0 \<and> telemed_visits s0 \<le> total_visits s0"
      by (auto simp: counters_def Let_def split: if_splits)
    with s0 show ?thesis by (simp add: set_percentage_def)
  qed
qed

text \<open>
  C9. When the classifier returns, every patient of the result has at least one visit,
  and its telemedicine visits are between 0 and its visits: the visits are the rows of
  the OKC location naming the patient, the telemedicine visits those of them whose
  service contains the keyword; a patient with no such row is not in the result.
\<close>

theorem ratio_counters_bounds:
  assumes "process_okc_telemedicine_percentage data = Inr patient_stats"
  shows "((patient, s) \<in> set patient_stats \<longrightarrow>
            1 \<le> total_visits s \<and> 0 \<le> telemed_visits s \<and> telemed_visits s \<le> total_visits s
            \<and> total_visits s = int (length (okc_rows data patient))
            \<and> telemed_visits s = int (length (filter is_telemed (okc_rows data patient))))
         \<and> (patient \<in> fst ` set patient_stats \<longleftrightarrow> okc_rows data patient \<noteq> [])"
proof -
  note l = process_okc_lookup(1)[OF assms, of patient] and d = process_okc_lookup(2)[OF assms]
  have a: "1 \<le> total_visits s \<and> 0 \<le> telemed_visits s \<and> telemed_visits s \<le> total_visits s
            \<and> total_visits s = int (length (okc_rows data patient))
            \<and> telemed_visits s = int (length (filter is_telemed (okc_rows data patient)))"
    if "(patient, s) \<in> set patient_stats"
  proof -
    from that d have "map_of patient_stats patient = Some s" by simp
    with l show ?thesis by (auto split: if_splits simp: Suc_le_eq)
  qed
  have "map_of patient_stats patient = None \<longleftrightarrow> okc_rows data patient = []"
    using l by (auto split: if_splits)
  then have b: "patient \<in> fst ` set patient_stats \<longleftrightarrow> okc_rows data patient \<noteq> []"
    by (auto simp: map_of_eq_None_iff)
  from a b show ?thesis by blast
qed


theorem ratio_counters_bounds_witness:
  "process_okc_telemedicine_percentage
     [mk_row [(''Location'', ''OKC''), (''Patient'', ''Smith, A''), (''Service'', ''Telemedicine Visit'')],
      mk_row [(''Location'', ''OKC''), (''Patient'', ''Smith, A''), (''Service'', ''Office Visit'')],
      mk_row [(''Location'', ''okc ''), (''Patient'', '' Smith, A''), (''Service'', ''Telemedicine Visit'')],
      mk_row [(''Location'', ''ARDMORE''), (''Patient'', ''Jones, B''), (''Service'', ''Office Visit'')]]
   = Inr [(''Smith, A'',
           \<lparr>total_visits = 3, telemed_visits = 2, percentage = 200 / 3, payors = {},
            services = {''Telemedicine Visit'', ''Office Visit''}\<rparr>)]
   \<and> length (okc_rows
     [mk_row [(''Location'', ''OKC''), (''Patient'', ''Smith, A''), (''Service'', ''Telemedicine Visit'')],
      mk_row [(''Location'', ''OKC''), (''Patient'', ''Smith, A''), (''Service'', ''Office Visit'')],
      mk_row [(''Location'', ''okc ''), (''Patient'', '' Smith, A''), (''Service'', ''Telemedicine Visit'')],
      mk_row [(''Location'', ''ARDMORE''), (''Patient'', ''Jones, B''), (''Service'', ''Office Visit'')]]
     ''Smith, A'') = 3
   \<and> okc_rows
     [mk_row [(''Location'', ''OKC''), (''Patient'', ''Smith, A''), (''Service'', ''Telemedicine Visit'')],
      mk_row [(''Location'', ''OKC''), (''Patient'', ''Smith, A''), (''Service'', ''Office Visit'')],
      mk_row [(''Location'', ''okc ''), (''Patient'', '' Smith, A''), (''Service'', ''Telemedicine Visit'')],
      mk_row [(''Location'', ''ARDMORE''), (''Patient'', ''Jones, B''), (''Service'', ''Office Visit'')]]
     ''Jones, B'' = []"
proof -
  let ?D = "[mk_row [(''Location'', ''OKC''), (''Patient'', ''Smith, A''), (''Service'', ''Telemedicine Visit'')],
      mk_row [(''Location'', ''OKC''), (''Patient'', ''Smith, A''), (''Service'', ''Office Visit'')],
      mk_row [(''Location'', ''okc ''), (''Patient'', '' Smith, A''), (''Service'', ''Telemedicine Visit'')],
      mk_row [(''Location'', ''ARDMORE''), (''Patient'', ''Jones, B''), (''Service'', ''Office Visit'')]]"
  let ?S = "\<lparr>total_visits = 3, telemed_visits = 2, percentage = 200 / 3, payors = {},
            services = {''Telemedicine Visit'', ''Office Visit''}\<rparr>"
  have h: "process_okc_telemedicine_percentage ?D = Inr [(''Smith, A'', ?S)]"
    by code_simp
  show ?thesis
    using h ratio_counters_bounds [OF h, of "''Smith, A''" ?S] ratio_counters_bounds [OF h, of "''Jones, B''"]
    by simp
qed

section \<open>Properties of the usage tiers\<close>

lemma users_partition:
  "\<forall>(p, s) \<in> set ps. in_one_tier s
   \<Longrightarrow> users is_high ps + users is_medium ps + users is_low ps + users is_none ps = int (length ps)"
  by (induction ps) (auto simp: users_def in_one_tier_def split: if_splits)

lemma tier_of_ratio:
  fixes m t :: int
  assumes "0 < t" "0 \<le> m" "m \<le> t" "percentage s = of_int m / of_int t * 100"
  shows "in_one_tier s"
    and "m = t \<Longrightarrow> percentage s = 100 \<and> is_high s"
    and "m = 0 \<Longrightarrow> percentage s = 0 \<and> is_none s"
proof -
  have "0 \<le> percentage s" using assms by simp
  then show "in_one_tier s"
    by (auto simp: in_one_tier_def is_high_def is_medium_def is_low_def is_none_def)
  show "percentage s = 100 \<and> is_high s" if "m = t"
    using that assms by (simp add: is_high_def)
  show "percentage s = 0 \<and> is_none s" if "m = 0"
    using that assms by (simp add: is_none_def)
qed

text \<open>
  C5. When the classifier returns, the percentage of every patient is its telemedicine
  visits over its visits times 100, and exactly one of the four tier conditions of the
  report holds of it: 75 and more, from 25 up to 75 excluded, strictly between 0 and 25,
  equal to 0. A patient whose visits are all telemedicine has 100 and is in the high
  tier; one with none has 0 and is in the tier of none. The four tier counts of the
  report add up to the number of patients.
\<close>

theorem tiers_partition_entities:
  assumes "process_okc_telemedicine_percentage data = Inr patient_stats"
  shows "((patient, s) \<in> set patient_stats \<longrightarrow>
            percentage s = of_int (telemed_visits s) / of_int (total_visits s) * 100
            \<and> (is_high s \<longleftrightarrow> 75 \<le> percentage s)
            \<and> (is_medium s \<longleftrightarrow> 25 \<le> percentage s \<and> percentage s < 75)
            \<and> (is_low s \<longleftrightarrow> 0 < percentage s \<and> percentage s < 25)
            \<and> (is_none s \<longleftrightarrow> percentage s = 0)
            \<and> in_one_tier s
            \<and> (telemed_visits s = total_visits s \<longrightarrow> percentage s = 100 \<and> is_high s)
            \<and> (telemed_visits s = 0 \<longrightarrow> percentage s = 0 \<and> is_none s))
         \<and> users is_high patient_stats + users is_medium patient_stats + users is_low patient_stats
             + users is_none patient_stats = int (length patient_stats)"
proof -
  have one: "in_one_tier s"
    if "(patient, s) \<in> set patient_stats" for patient s
    using process_okc_lookup(3)[OF assms that] tier_of_ratio(1) by blast
  have "users is_high patient_stats + users is_medium patient_stats + users is_low patient_stats
             + users is_none patient_stats = int (length patient_stats)"
    by (rule users_partition) (use one in blast)
  moreover have "percentage s = of_int (telemed_visits s) / of_int (total_visits s) * 100
            \<and> (telemed_visits s = total_visits s \<longrightarrow> percentage s = 100 \<and> is_high s)
            \<and> (telemed_visits s = 0 \<longrightarrow> percentage s = 0 \<and> is_none s)"
    if "(patient, s) \<in> set patient_stats"
    using process_okc_lookup(3)[OF assms that] tier_of_ratio(2,3) by blast
  ultimately show ?thesis
    using one[of patient s] by (auto simp: is_high_def is_medium_def is_low_def is_none_def)
qed

theorem tiers_partition_entities_witness:
  "process_okc_telemedicine_percentage
     [mk_row [(''Location'', ''OKC''), (''Patient'', ''A''), (''Service'', ''Telemedicine'')],
      mk_row [(''Location'', ''OKC''), (''Patient'', ''B''), (''Service'', ''Office'')],
      mk_row [(''Location'', ''OKC''), (''Patient'', ''C''), (''Service'', ''TELEMEDICINE x''), (''Payor'', ''Medicare'')],
      mk_row [(''Location'', ''OKC''), (''Patient'', ''C''), (''Service'', ''Office''), (''Payor'', ''Medicare'')],
      mk_row [(''Location'', ''OKC''), (''Patient'', ''C''), (''Service'', ''TELEMEDICINE x''), (''Payor'', ''Medicare'')],
      mk_row [(''Location'', ''OKC''), (''Patient'', ''C''), (''Service'', ''TELEMEDICINE x''), (''Payor'', ''Medicare'')]]
   = Inr [(''A'', \<lparr>total_visits = 1, telemed_visits = 1, percentage = 100, payors = {}, services = {''Telemedicine''}\<rparr>),
          (''B'', \<lparr>total_visits = 1, telemed_visits = 0, percentage = 0, payors = {}, services = {''Office''}\<rparr>),
          (''C'', \<lparr>total_visits = 4, telemed_visits = 3, percentage = 75, payors = {''Medicare''},
                  services = {''TELEMEDICINE x'', ''Office''}\<rparr>)]
   \<and> in_one_tier \<lparr>total_visits = 4, telemed_visits = 3, percentage = 75, payors = {''Medicare''},
                  services = {''TELEMEDICINE x'', ''Office''}\<rparr>
   \<and> is_high \<lparr>total_visits = 4, telemed_visits = 3, percentage = 75, payors = {''Medicare''},
                  services = {''TELEMEDICINE x'', ''Office''}\<rparr>
   \<and> \<not> is_medium \<lparr>total_visits = 4, telemed_visits = 3, percentage = 75, payors = {''Medicare''},
                  services = {''TELEMEDICINE x'', ''Office''}\<rparr>
   \<and> is_high \<lparr>total_visits = 1, telemed_visits = 1, percentage = 100, payors = {}, services = {''Telemedicine''}\<rparr>
   \<and> is_none \<lparr>total_visits = 1, telemed_visits = 0, percentage = 0, payors = {}, services = {''Office''}\<rparr>"
proof -
  let ?D = "[mk_row [(''Location'', ''OKC''), (''Patient'', ''A''), (''Service'', ''Telemedicine'')],
      mk_row [(''Location'', ''OKC''), (''Patient'', ''B''), (''Service'', ''Office'')],
      mk_row [(''Location'', ''OKC''), (''Patient'', ''C''), (''Service'', ''TELEMEDICINE x''), (''Payor'', ''Medicare'')],
      mk_row [(''Location'', ''OKC''), (''Patient'', ''C''), (''Service'', ''Office''), (''Payor'', ''Medicare'')],
      mk_row [(''Location'', ''OKC''), (''Patient'', ''C''), (''Service'', ''TELEMEDICINE x''), (''Payor'', ''Medicare'')],
      mk_row [(''Location'', ''OKC''), (''Patient'', ''C''), (''Service'', ''TELEMEDICINE x''), (''Payor'', ''Medicare'')]]"
  let ?A = "\<lparr>total_visits = 1, telemed_visits = 1, percentage = 100, payors = {}, services = {''Telemedicine''}\<rparr>"
  let ?B = "\<lparr>total_visits = 1, telemed_visits = 0, percentage = 0, payors = {}, services = {''Office''}\<rparr>"
  let ?C = "\<lparr>total_visits = 4, telemed_visits = 3, percentage = 75, payors = {''Medicare''},
                  services = {''TELEMEDICINE x'', ''Office''}\<rparr>"
  have h: "process_okc_telemedicine_percentage ?D = Inr [(''A'', ?A), (''B'', ?B), (''C'', ?C)]"
    by code_simp
  show ?thesis
    using h tiers_partition_entities [OF h, of "''A''" ?A] tiers_partition_entities [OF h, of "''B''" ?B]
      tiers_partition_entities [OF h, of "''C''" ?C]
    by simp
qed

section \<open>Properties of the orderings\<close>

lemma listed_keys_shape:
  "listed_keys ([h] @ map (\<lambda>(l, c). [CStr l, CInt c]) xs @ [t]) = map fst xs"
  by (simp add: listed_keys_def butlast_append case_prod_unfold comp_def)

lemma sorted_fst_sort:
  fixes xs :: "(string \<times> int) list"
  shows "sorted (map fst (sort xs))"
proof -
  have "sorted_wrt (\<le>) (sort xs)" by simp
  then have "sorted_wrt (\<lambda>x y. fst x \<le> fst y) (sort xs)"
    by (rule sorted_wrt_mono_rel[rotated]) (auto simp: less_eq_prod_def)
  then show ?thesis by (simp add: sorted_map)
qed

lemma generate_report_with_fallback:
  assumes "location_count \<noteq> []" "sort_by \<noteq> ''count''"
  shows "\<exists>out. generate_report_with heading column now location_count sort_by = Written out
           \<and> listed_keys (csv_file out) = map fst (sort location_count)
           \<and> csv_file out = [[CStr column, CStr ''Unique_Patients'']]
                 @ map (\<lambda>(location, count). [CStr location, CInt count]) (sort location_count)
                 @ [[CStr ''TOTAL'', CInt (sum_list (map snd (sort location_count)))]]
           \<and> take (length location_count) (drop 7 (txt_file out))
               = map (\<lambda>(location, count). count_line location count) (sort location_count)
           \<and> take (length location_count) (drop 5 (console out))
               = map (\<lambda>(location, count). count_line location count) (sort location_count)"
  using assms listed_keys_shape[of _ "sort location_count"]
  by (simp add: generate_report_with_def sort_items_def Let_def)

text \<open>
  C10. On a non-empty dictionary and any \<open>sort_by\<close> other than the string \<open>count\<close>,
  the report generators of clientByLocation.py and clientByPayerType.py return a report
  (no error), whose rows, in the CSV file, the text file and the console, are the items in
  ascending order (of the keys); with \<open>count\<close> the order is by descending count.
\<close>

theorem unknown_sort_mode_is_alphabetical:
  assumes "location_count \<noteq> []" "sort_by \<noteq> ''count''"
  shows "(\<exists>out. generate_report_location now location_count sort_by = Written out
           \<and> listed_keys (csv_file out) = map fst (sort location_count)
           \<and> take (length location_count) (drop 7 (txt_file out))
               = map (\<lambda>(location, count). count_line location count) (sort location_count)
           \<and> take (length location_count) (drop 5 (console out))
               = map (\<lambda>(location, count). count_line location count) (sort location_count))
       \<and> (\<exists>out. generate_report_payor now location_count sort_by = Written out
           \<and> listed_keys (csv_file out) = map fst (sort location_count)
           \<and> take (length location_count) (drop 7 (txt_file out))
               = map (\<lambda>(location, count). count_line location count) (sort location_count)
           \<and> take (length location_count) (drop 5 (console out))
               = map (\<lambda>(location, count). count_line location count) (sort location_count))
       \<and> sorted (map fst (sort location_count))
       \<and> set (sort location_count) = set location_count
       \<and> sort_items location_count sort_by = sort location_count
       \<and> sort_items location_count ''count'' = sort_key (\<lambda>x. (- snd x, fst x)) location_count"
proof -
  from generate_report_with_fallback[OF assms]
  have "\<exists>out. generate_report_location now location_count sort_by = Written out
           \<and> listed_keys (csv_file out) = map fst (sort location_count)
           \<and> take (length location_count) (drop 7 (txt_file out))
               = map (\<lambda>(location, count). count_line location count) (sort location_count)
           \<and> take (length location_count) (drop 5 (console out))
               = map (\<lambda>(location, count). count_line location count) (sort location_count)"
    unfolding generate_report_location_def by blast
  moreover from generate_report_with_fallback[OF assms]
  have "\<exists>out. generate_report_payor now location_count sort_by = Written out
           \<and> listed_keys (csv_file out) = map fst (sort location_count)
           \<and> take (length location_count) (drop 7 (txt_file out))
               = map (\<lambda>(location, count). count_line location count) (sort location_count)
           \<and> take (length location_count) (drop 5 (console out))
               = map (\<lambda>(location, count). count_line location count) (sort location_count)"
    unfolding generate_report_payor_def by blast
  moreover have "sort_items location_count sort_by = sort location_count"
    using assms(2) by (simp add: sort_items_def)
  ultimately show ?thesis
    using sorted_fst_sort[of location_count] by (simp add: sort_items_def)
qed


theorem unknown_sort_mode_is_alphabetical_witness:
  "[(''OKC'', 2), (''ARDMORE'', 5), (''Tulsa'', 2::int)] \<noteq> [] \<and> ''Count'' \<noteq> ''count''
   \<and> sort_items [(''OKC'', 2), (''ARDMORE'', 5), (''Tulsa'', 2)] ''Count''
       = [(''ARDMORE'', 5), (''OKC'', 2), (''Tulsa'', 2)]
   \<and> sort_items [(''OKC'', 2), (''ARDMORE'', 5), (''Tulsa'', 2)] ''count''
       = [(''ARDMORE'', 5), (''OKC'', 2), (''Tulsa'', 2)]
   \<and> sort_items [(''Tulsa'', 7), (''ARDMORE'', 5), (''OKC'', 7)] ''count''
       = [(''OKC'', 7), (''Tulsa'', 7), (''ARDMORE'', 5)]
   \<and> (\<exists>out. generate_report_location ''2026-11-03'' [(''OKC'', 2), (''ARDMORE'', 5), (''Tulsa'', 2)] ''Count'' = Written out
         \<and> listed_keys (csv_file out) = [''ARDMORE'', ''OKC'', ''Tulsa''])"
proof -
  have s: "sort [(''OKC'', 2), (''ARDMORE'', 5), (''Tulsa'', 2::int)] = [(''ARDMORE'', 5), (''OKC'', 2), (''Tulsa'', 2)]"
    by code_simp
  have c: "sort_items [(''OKC'', 2), (''ARDMORE'', 5), (''Tulsa'', 2)] ''count''
       = [(''ARDMORE'', 5), (''OKC'', 2), (''Tulsa'', 2)]"
    "sort_items [(''Tulsa'', 7), (''ARDMORE'', 5), (''OKC'', 7)] ''count''
       = [(''OKC'', 7), (''Tulsa'', 7), (''ARDMORE'', 5)]"
    by code_simp+
  have h: "[(''OKC'', 2), (''ARDMORE'', 5), (''Tulsa'', 2::int)] \<noteq> []" "''Count'' \<noteq> ''count''"
    by simp_all
  show ?thesis
    using unknown_sort_mode_is_alphabetical [OF h, of "''2026-11-03''"] s c by auto
qed

section \<open>The completeness counts at inputs with repeated or unnamed patients\<close>

text \<open>
  C2 at a failing input. Two rows with a payor, no location and the same patient: both
  rows are in the class of payor without location, which is reported as 1 (the number of
  distinct patient names, printed as "Records with Payor but NO Location"); the four
  reported counts sum to 1 and the total is 2.
\<close>

theorem partition_sum_failing_input:
  "analyze_data_gaps
     [mk_row [(''Location'', []), (''Payor'', ''Medicare''), (''Patient'', ''Smith, A'')],
      mk_row [(''Location'', []), (''Payor'', ''Medicare''), (''Patient'', ''Smith, A'')]]
   = Inr \<lparr>total_records = 2, has_both = 0, has_both_pct = 0, payor_no_location = 1,
          payor_no_location_pct = 50, location_no_payor = 0, location_no_payor_pct = 0,
          has_neither = 0, has_neither_pct = 0, patients_payor_no_location = [''Smith, A''],
          patients_location_no_payor = []\<rparr>
   \<and> rows_where False True
     [mk_row [(''Location'', []), (''Payor'', ''Medicare''), (''Patient'', ''Smith, A'')],
      mk_row [(''Location'', []), (''Payor'', ''Medicare''), (''Patient'', ''Smith, A'')]] = 2"
  by code_simp

text \<open>
  C7 at failing inputs. In the example of the claim, when the row without location names
  no patient, the class of payor without location is reported as 0 with 0 percent, not 1
  with 50 percent. With two such rows of one patient and a third row having both fields,
  two rows of three are in the class and 100/3 percent is reported, not 200/3.
\<close>

theorem partition_percentage_failing_input:
  "analyze_data_gaps
     [mk_row [(''Location'', []), (''Payor'', ''Medicare''), (''Patient'', [])],
      mk_row [(''Location'', ''OKC''), (''Payor'', ''Medicare''), (''Patient'', ''Smith, A'')]]
   = Inr \<lparr>total_records = 2, has_both = 1, has_both_pct = 50, payor_no_location = 0,
          payor_no_location_pct = 0, location_no_payor = 0, location_no_payor_pct = 0,
          has_neither = 0, has_neither_pct = 0, patients_payor_no_location = [],
          patients_location_no_payor = []\<rparr>
   \<and> rows_where False True
     [mk_row [(''Location'', []), (''Payor'', ''Medicare''), (''Patient'', [])],
      mk_row [(''Location'', ''OKC''), (''Payor'', ''Medicare''), (''Patient'', ''Smith, A'')]] = 1
   \<and> analyze_data_gaps
     [mk_row [(''Location'', []), (''Payor'', ''Medicare''), (''Patient'', ''Jones, B'')],
      mk_row [(''Location'', []), (''Payor'', ''Medicare''), (''Patient'', ''Jones, B'')],
      mk_row [(''Location'', ''OKC''), (''Payor'', ''Medicare''), (''Patient'', ''Smith, A'')]]
   = Inr \<lparr>total_records = 3, has_both = 1, has_both_pct = 100 / 3, payor_no_location = 1,
          payor_no_location_pct = 100 / 3, location_no_payor = 0, location_no_payor_pct = 0,
          has_neither = 0, has_neither_pct = 0, patients_payor_no_location = [''Jones, B''],
          patients_location_no_payor = []\<rparr>
   \<and> pct_of (rows_where False True
     [mk_row [(''Location'', []), (''Payor'', ''Medicare''), (''Patient'', ''Jones, B'')],
      mk_row [(''Location'', []), (''Payor'', ''Medicare''), (''Patient'', ''Jones, B'')],
      mk_row [(''Location'', ''OKC''), (''Payor'', ''Medicare''), (''Patient'', ''Smith, A'')]]) 3 = 200 / 3"
  by code_simp

section \<open>Ties in the listing of telemedicine percentages\<close>

text \<open>
  C3 at a failing input. A has one telemedicine visit of one, B two of two: both are at
  100 percent, and the listing, in the text file and in the CSV file, has B before A. The
  claim orders equal percentages by name with nothing in between, as the comment above the
  sort says ("by percentage (descending), then by name") and as the other listings by a
  metric do; the key of this sort has the number of telemedicine visits in between.
\<close>

theorem percentage_ties_failing_input:
  "process_okc_telemedicine_percentage
     [mk_row [(''Location'', ''OKC''), (''Patient'', ''A''), (''Service'', ''Telemedicine'')],
      mk_row [(''Location'', ''OKC''), (''Patient'', ''B''), (''Service'', ''Telemedicine'')],
      mk_row [(''Location'', ''OKC''), (''Patient'', ''B''), (''Service'', ''Telemedicine'')]]
   = Inr [(''A'', \<lparr>total_visits = 1, telemed_visits = 1, percentage = 100, payors = {}, services = {''Telemedicine''}\<rparr>),
          (''B'', \<lparr>total_visits = 2, telemed_visits = 2, percentage = 100, payors = {}, services = {''Telemedicine''}\<rparr>)]
   \<and> drop 18 (txt_file (generate_telemedicine_percentage_report ''2026-11-03 10:00:00''
        [(''A'', \<lparr>total_visits = 1, telemed_visits = 1, percentage = 100, payors = {}, services = {''Telemedicine''}\<rparr>),
         (''B'', \<lparr>total_visits = 2, telemed_visits = 2, percentage = 100, payors = {}, services = {''Telemedicine''}\<rparr>)]))
     = [''B                                     2        2       100.0%                     '',
        ''A                                     1        1       100.0%                     '',
        replicate 80 (CHR ''-''), replicate 80 (CHR ''='')]
   \<and> csv_file (generate_telemedicine_percentage_report ''2026-11-03 10:00:00''
        [(''A'', \<lparr>total_visits = 1, telemed_visits = 1, percentage = 100, payors = {}, services = {''Telemedicine''}\<rparr>),
         (''B'', \<lparr>total_visits = 2, telemed_visits = 2, percentage = 100, payors = {}, services = {''Telemedicine''}\<rparr>)])
     = [[CStr ''Patient'', CStr ''Total_Visits'', CStr ''Telemed_Visits'', CStr ''Percentage'', CStr ''Payors''],
        [CStr ''B'', CInt 2, CInt 2, CStr ''100.0'', CStr []],
        [CStr ''A'', CInt 1, CInt 1, CStr ''100.0'', CStr []]]
   \<and> sort_patients
        [(''A'', \<lparr>total_visits = 1, telemed_visits = 1, percentage = 100, payors = {}, services = {''Telemedicine''}\<rparr>),
         (''B'', \<lparr>total_visits = 2, telemed_visits = 2, percentage = 100, payors = {}, services = {''Telemedicine''}\<rparr>)]
     = [(''B'', \<lparr>total_visits = 2, telemed_visits = 2, percentage = 100, payors = {}, services = {''Telemedicine''}\<rparr>),
        (''A'', \<lparr>total_visits = 1, telemed_visits = 1, percentage = 100, payors = {}, services = {''Telemedicine''}\<rparr>)]
   \<and> ''A'' < ''B''"
proof -
  let ?A = "\<lparr>total_visits = 1, telemed_visits = 1, percentage = 100, payors = {}, services = {''Telemedicine''}\<rparr>"
  let ?B = "\<lparr>total_visits = 2, telemed_visits = 2, percentage = 100, payors = {}, services = {''Telemedicine''}\<rparr>"
  have p: "process_okc_telemedicine_percentage
     [mk_row [(''Location'', ''OKC''), (''Patient'', ''A''), (''Service'', ''Telemedicine'')],
      mk_row [(''Location'', ''OKC''), (''Patient'', ''B''), (''Service'', ''Telemedicine'')],
      mk_row [(''Location'', ''OKC''), (''Patient'', ''B''), (''Service'', ''Telemedicine'')]]
   = Inr [(''A'', ?A), (''B'', ?B)]"
    by code_simp
  have f: "drop 18 (txt_file (generate_telemedicine_percentage_report ''2026-11-03 10:00:00''
        [(''A'', ?A), (''B'', ?B)]))
     = [''B                                     2        2       100.0%                     '',
        ''A                                     1        1       100.0%                     '',
        replicate 80 (CHR ''-''), replicate 80 (CHR ''='')]"
    by code_simp
  have c: "csv_file (generate_telemedicine_percentage_report ''2026-11-03 10:00:00''
        [(''A'', ?A), (''B'', ?B)])
     = [[CStr ''Patient'', CStr ''Total_Visits'', CStr ''Telemed_Visits'', CStr ''Percentage'', CStr ''Payors''],
        [CStr ''B'', CInt 2, CInt 2, CStr ''100.0'', CStr []],
        [CStr ''A'', CInt 1, CInt 1, CStr ''100.0'', CStr []]]"
    by code_simp
  have s: "sort_patients [(''A'', ?A), (''B'', ?B)] = [(''B'', ?B), (''A'', ?A)]"
    by code_simp
  have n: "''A'' < ''B''"
    by simp
  show ?thesis
    by (intro conjI) (rule p f c s n)+
qed

section \<open>Properties of the breakdown view\<close>

lemma only_under_Cons:
  "only_under field_a field_b (row # rest) v =
     (if present row field_a \<and> \<not> present row field_b \<and> present row ''Patient''
         \<and> strip (the_str (get row field_a)) = v
      then insert (entity row) (only_under field_a field_b rest v)
      else only_under field_a field_b rest v)"
  by (simp add: only_under_def)

lemma py_strip_Inr:
  "py_strip (get_default row k []) = Inr s \<Longrightarrow>
   s = strip (the_str (get row k)) \<and> present row k = (s \<noteq> [])"
  by (cases "row k") (auto simp: get_default_def get_def present_def strip_def split: pyval.splits)

lemma gaps_step2_lookup:
  assumes "py_strip (get_default row ''Location'' []) = Inr location"
    "py_strip (get_default row ''Payor'' []) = Inr payor"
    "py_strip (get_default row ''Patient'' []) = Inr patient"
  shows "map_of (payor_only_by_payor (gaps_step2 location payor patient st)) v =
           (if present row ''Payor'' \<and> \<not> present row ''Location'' \<and> present row ''Patient''
               \<and> strip (the_str (get row ''Payor'')) = v
            then Some (insert (entity row) (sets_of (payor_only_by_payor st) v))
            else map_of (payor_only_by_payor st) v)"
    and "map_of (location_only_by_location (gaps_step2 location payor patient st)) v =
           (if present row ''Location'' \<and> \<not> present row ''Payor'' \<and> present row ''Patient''
               \<and> strip (the_str (get row ''Location'')) = v
            then Some (insert (entity row) (sets_of (location_only_by_location st) v))
            else map_of (location_only_by_location st) v)"
  using py_strip_Inr[OF assms(1)] py_strip_Inr[OF assms(2)] py_strip_Inr[OF assms(3)]
  by (auto simp: gaps_step2_def map_of_add_patient entity_def)

lemma gaps_loop2_lookup:
  "gaps_loop2 data st0 = Inr st \<Longrightarrow>
   map_of (payor_only_by_payor st) v =
     (if only_under ''Payor'' ''Location'' data v = {} then map_of (payor_only_by_payor st0) v
      else Some (only_under ''Payor'' ''Location'' data v \<union> sets_of (payor_only_by_payor st0) v))
   \<and> map_of (location_only_by_location st) v =
     (if only_under ''Location'' ''Payor'' data v = {} then map_of (location_only_by_location st0) v
      else Some (only_under ''Location'' ''Payor'' data v \<union> sets_of (location_only_by_location st0) v))"
proof (induction data arbitrary: st0)
  case Nil
  then show ?case by (simp add: only_under_def)
next
  case (Cons row rest)
  from Cons.prems obtain location payor patient where
    f: "py_strip (get_default row ''Location'' []) = Inr location"
       "py_strip (get_default row ''Payor'' []) = Inr payor"
       "py_strip (get_default row ''Patient'' []) = Inr patient"
    and r: "gaps_loop2 rest (gaps_step2 location payor patient st0) = Inr st"
    by (auto split: sum.splits)
  show ?case
    using Cons.IH[OF r] gaps_step2_lookup[OF f, of st0 v]
    by (auto simp: only_under_Cons sets_of_def split: option.splits)
qed


lemma gaps_step2_distinct:
  "distinct (map fst (payor_only_by_payor st)) \<and> distinct (map fst (location_only_by_location st)) \<Longrightarrow>
   distinct (map fst (payor_only_by_payor (gaps_step2 location payor patient st)))
   \<and> distinct (map fst (location_only_by_location (gaps_step2 location payor patient st)))"
  by (simp add: gaps_step2_def distinct_add_patient)

lemma gaps_loop2_distinct:
  "gaps_loop2 data st0 = Inr st \<Longrightarrow>
   distinct (map fst (payor_only_by_payor st0)) \<and> distinct (map fst (location_only_by_location st0)) \<Longrightarrow>
   distinct (map fst (payor_only_by_payor st)) \<and> distinct (map fst (location_only_by_location st))"
proof (induction data arbitrary: st0)
  case Nil
  then show ?case by simp
next
  case (Cons row rest)
  from Cons.prems(1) obtain location payor patient where
    "gaps_loop2 rest (gaps_step2 location payor patient st0) = Inr st"
    by (auto split: sum.splits)
  from Cons.IH[OF this gaps_step2_distinct[OF Cons.prems(2)]] show ?case .
qed

lemma console_groups_largest:
  "length (console_groups d) = min 5 (length d)
   \<and> set (console_groups d) \<subseteq> set d
   \<and> sorted (rev (map (\<lambda>g. card (snd g)) (console_groups d)))
   \<and> (\<forall>g\<in>set d. g \<notin> set (console_groups d) \<longrightarrow>
         (\<forall>h\<in>set (console_groups d). card (snd g) \<le> card (snd h)))"
proof -
  let ?k = "\<lambda>x :: string \<times> string set. - int (card (snd x))"
  let ?xs = "sort_key ?k d"
  have s: "sorted (map ?k ?xs)" by (rule sorted_sort_key)
  then have "sorted (map ?k (take 5 ?xs))"
    by (simp add: take_map[symmetric] sorted_wrt_take del: sorted_sort_key)
  then have 1: "sorted (rev (map (\<lambda>g. card (snd g)) (take 5 ?xs)))"
    by (simp add: sorted_map sorted_wrt_rev sorted_wrt_map)
  have 2: "set (take 5 ?xs) \<subseteq> set d"
    using set_take_subset[of 5 ?xs] by simp
  have "sorted (map ?k (take 5 ?xs) @ map ?k (drop 5 ?xs))"
    using s by (simp only: map_append[symmetric] append_take_drop_id)
  then have o: "\<forall>h\<in>set (take 5 ?xs). \<forall>g\<in>set (drop 5 ?xs). ?k h \<le> ?k g"
    by (auto simp: sorted_append)
  have 3: "card (snd g) \<le> card (snd h)"
    if "g \<in> set d" "g \<notin> set (take 5 ?xs)" "h \<in> set (take 5 ?xs)" for g h
  proof -
    have "set d = set (take 5 ?xs) \<union> set (drop 5 ?xs)"
      using set_append[of "take 5 ?xs" "drop 5 ?xs"] by simp
    with that have "g \<in> set (drop 5 ?xs)" by blast
    with o that(3) have "?k h \<le> ?k g" by blast
    then show ?thesis by simp
  qed
  show ?thesis
    using 1 2 3 by (auto simp: console_groups_def)
qed

lemma analyze_data_gaps_combined_run:
  assumes "gaps_loop2 data gaps_init = Inr st"
  shows "snd (analyze_data_gaps_combined data) = Inl NameError"
    and "drop 8 (fst (analyze_data_gaps_combined data)) =
           (if payor_only_by_payor st = [] then []
            else (newline # ''Payors with patients missing location data:'')
                 # map group_line (console_groups (payor_only_by_payor st)))
           @ (if location_only_by_location st = [] then []
              else (newline # ''Locations with patients missing payor data:'')
                   # map group_line (console_groups (location_only_by_location st)))
           @ [replicate 70 (CHR ''='')]"
  using assms
  by (simp_all add: analyze_data_gaps_combined_def Let_def records_lines_def console_breakdown_def)

text \<open>
  C8, as the claim states it, fails in both places. With one patient for Cigna, one for
  Aetna and two for BCBS, all without location, the console lists BCBS, Cigna, Aetna: the
  two groups of one patient stand in the order of their first rows, not by name. The run
  then ends with \<open>NameError\<close>, so that no breakdown is persisted at all.
\<close>

theorem breakdown_order_counterexample:
  "analyze_data_gaps_combined
     [mk_row [(''Location'', []), (''Payor'', ''Cigna''), (''Patient'', ''p1'')],
      mk_row [(''Location'', []), (''Payor'', ''Aetna''), (''Patient'', ''p2'')],
      mk_row [(''Location'', []), (''Payor'', ''BCBS''), (''Patient'', ''p3'')],
      mk_row [(''Location'', []), (''Payor'', ''BCBS''), (''Patient'', ''p4'')]]
   = ([newline # replicate 70 (CHR ''=''),
       ''DATA QUALITY ANALYSIS - COMPREHENSIVE REPORT'',
       replicate 70 (CHR ''=''),
       ''Total Records: 4'',
       ''Records with both Location and Payor: 0 (0.0%)'',
       ''Records with Payor but NO Location: 4 (100.0%)'',
       ''Records with Location but NO Payor: 0 (0.0%)'',
       ''Records with neither: 0 (0.0%)'',
       newline # ''Payors with patients missing location data:'',
       ''  BCBS: 2 patients'', ''  Cigna: 1 patients'', ''  Aetna: 1 patients'',
       replicate 70 (CHR ''='')],
      Inl NameError)"
  by code_simp

text \<open>
  C8, amended. When the loop of the analysis ends, the function prints, after the eight
  lines of the summary, the breakdown of each partial partition that has groups: a
  heading and one line for each group shown, with the group's value and its number of
  distinct patients. A group holds the trimmed patient names of the rows of the partition
  with its value. The groups shown are five, or all when there are fewer; their counts
  never increase down the list; and no group left out has more patients than one shown.
  (Then the run ends with \<open>NameError\<close>.)
\<close>

theorem breakdown_console_order:
  assumes "gaps_loop2 data gaps_init = Inr st"
  shows "snd (analyze_data_gaps_combined data) = Inl NameError
         \<and> drop 8 (fst (analyze_data_gaps_combined data)) =
             (if payor_only_by_payor st = [] then []
              else (newline # ''Payors with patients missing location data:'')
                   # map group_line (console_groups (payor_only_by_payor st)))
             @ (if location_only_by_location st = [] then []
                else (newline # ''Locations with patients missing payor data:'')
                     # map group_line (console_groups (location_only_by_location st)))
             @ [replicate 70 (CHR ''='')]
         \<and> group_line (v, patients) = ''  '' @ v @ '': '' @ show_nat (card patients) @ '' patients''
         \<and> map_of (payor_only_by_payor st) v =
             (if only_under ''Payor'' ''Location'' data v = {} then None
              else Some (only_under ''Payor'' ''Location'' data v))
         \<and> map_of (location_only_by_location st) v =
             (if only_under ''Location'' ''Payor'' data v = {} then None
              else Some (only_under ''Location'' ''Payor'' data v))
         \<and> distinct (map fst (payor_only_by_payor st))
         \<and> distinct (map fst (location_only_by_location st))
         \<and> length (console_groups d) = min 5 (length d)
         \<and> set (console_groups d) \<subseteq> set d
         \<and> sorted (rev (map (\<lambda>g. card (snd g)) (console_groups d)))
         \<and> (\<forall>g\<in>set d. g \<notin> set (console_groups d) \<longrightarrow>
               (\<forall>h\<in>set (console_groups d). card (snd g) \<le> card (snd h)))"
proof -
  have l: "map_of (payor_only_by_payor st) v =
             (if only_under ''Payor'' ''Location'' data v = {} then None
              else Some (only_under ''Payor'' ''Location'' data v))
         \<and> map_of (location_only_by_location st) v =
             (if only_under ''Location'' ''Payor'' data v = {} then None
              else Some (only_under ''Location'' ''Payor'' data v))"
    using gaps_loop2_lookup[OF assms, of v] by (simp add: gaps_init_def sets_of_def)
  have k: "distinct (map fst (payor_only_by_payor st)) \<and> distinct (map fst (location_only_by_location st))"
    using gaps_loop2_distinct[OF assms] by (simp add: gaps_init_def)
  have g: "group_line (v, patients) = ''  '' @ v @ '': '' @ show_nat (card patients) @ '' patients''"
    by (simp add: group_line_def)
  note r = analyze_data_gaps_combined_run[OF assms]
  show ?thesis
    by (rule conjI[OF r(1) conjI[OF r(2) conjI[OF g conjI[OF l[THEN conjunct1]
          conjI[OF l[THEN conjunct2] conjI[OF k[THEN conjunct1] conjI[OF k[THEN conjunct2]
          console_groups_largest]]]]]]])
qed

theorem breakdown_console_order_witness:
  "gaps_loop2
     [mk_row [(''Location'', []), (''Payor'', ''Cigna''), (''Patient'', ''p1'')],
      mk_row [(''Location'', []), (''Payor'', ''Aetna''), (''Patient'', ''p2'')],
      mk_row [(''Location'', []), (''Payor'', ''BCBS''), (''Patient'', ''p3'')],
      mk_row [(''Location'', []), (''Payor'', ''BCBS''), (''Patient'', ''p4 '')],
      mk_row [(''Location'', ''OKC''), (''Payor'', ''BCBS''), (''Patient'', ''p5'')]] gaps_init
   = Inr \<lparr>has_payor_no_location = {''p1'', ''p2'', ''p3'', ''p4''}, has_location_no_payor = {},
          has_both_rows = 1, has_neither_rows = 0,
          payor_only_by_payor = [(''Cigna'', {''p1''}), (''Aetna'', {''p2''}), (''BCBS'', {''p3'', ''p4''})],
          location_only_by_location = []\<rparr>
   \<and> drop 8 (fst (analyze_data_gaps_combined
     [mk_row [(''Location'', []), (''Payor'', ''Cigna''), (''Patient'', ''p1'')],
      mk_row [(''Location'', []), (''Payor'', ''Aetna''), (''Patient'', ''p2'')],
      mk_row [(''Location'', []), (''Payor'', ''BCBS''), (''Patient'', ''p3'')],
      mk_row [(''Location'', []), (''Payor'', ''BCBS''), (''Patient'', ''p4 '')],
      mk_row [(''Location'', ''OKC''), (''Payor'', ''BCBS''), (''Patient'', ''p5'')]]))
     = [newline # ''Payors with patients missing location data:'',
        ''  BCBS: 2 patients'', ''  Cigna: 1 patients'', ''  Aetna: 1 patients'',
        replicate 70 (CHR ''='')]
   \<and> only_under ''Payor'' ''Location''
     [mk_row [(''Location'', []), (''Payor'', ''Cigna''), (''Patient'', ''p1'')],
      mk_row [(''Location'', []), (''Payor'', ''Aetna''), (''Patient'', ''p2'')],
      mk_row [(''Location'', []), (''Payor'', ''BCBS''), (''Patient'', ''p3'')],
      mk_row [(''Location'', []), (''Payor'', ''BCBS''), (''Patient'', ''p4 '')],
      mk_row [(''Location'', ''OKC''), (''Payor'', ''BCBS''), (''Patient'', ''p5'')]] ''BCBS''
     = {''p3'', ''p4''}
   \<and> map (\<lambda>g. card (snd g))
        (console_groups [(''Cigna'', {''p1''}), (''Aetna'', {''p2''}), (''BCBS'', {''p3'', ''p4''})])
     = [2, 1, 1]"
proof -
  let ?D = "[mk_row [(''Location'', []), (''Payor'', ''Cigna''), (''Patient'', ''p1'')],
      mk_row [(''Location'', []), (''Payor'', ''Aetna''), (''Patient'', ''p2'')],
      mk_row [(''Location'', []), (''Payor'', ''BCBS''), (''Patient'', ''p3'')],
      mk_row [(''Location'', []), (''Payor'', ''BCBS''), (''Patient'', ''p4 '')],
      mk_row [(''Location'', ''OKC''), (''Payor'', ''BCBS''), (''Patient'', ''p5'')]]"
  let ?st = "\<lparr>has_payor_no_location = {''p1'', ''p2'', ''p3'', ''p4''}, has_location_no_payor = {},
          has_both_rows = 1, has_neither_rows = 0,
          payor_only_by_payor = [(''Cigna'', {''p1''}), (''Aetna'', {''p2''}), (''BCBS'', {''p3'', ''p4''})],
          location_only_by_location = []\<rparr>"
  have h: "gaps_loop2 ?D gaps_init = Inr ?st"
    by code_simp
  have e: "map group_line (console_groups [(''Cigna'', {''p1''}), (''Aetna'', {''p2''}), (''BCBS'', {''p3'', ''p4''})])
      = [''  BCBS: 2 patients'', ''  Cigna: 1 patients'', ''  Aetna: 1 patients'']"
    "map (\<lambda>g. card (snd g))
        (console_groups [(''Cigna'', {''p1''}), (''Aetna'', {''p2''}), (''BCBS'', {''p3'', ''p4''})])
     = [2, 1, 1]"
    by code_simp+
  note t = breakdown_console_order [OF h, of "''BCBS''"]
  have a: "drop 8 (fst (analyze_data_gaps_combined ?D))
     = [newline # ''Payors with patients missing location data:'',
        ''  BCBS: 2 patients'', ''  Cigna: 1 patients'', ''  Aetna: 1 patients'',
        replicate 70 (CHR ''='')]"
    using t[THEN conjunct2, THEN conjunct1] e(1) by simp
  have b: "only_under ''Payor'' ''Location'' ?D ''BCBS'' = {''p3'', ''p4''}"
    using t[THEN conjunct2, THEN conjunct2, THEN conjunct2, THEN conjunct1]
    by (simp split: if_splits)
  show ?thesis
    by (intro conjI) (rule h a b e(2))+
qed

section \<open>What the persisted files carry\<close>





















end
